theory Spec2Isabelle
  imports Complex_Main "HOL-Library.Word" "HOL-Library.Stream"
begin

section \<open>The Intel River collector: telemetry parsers\<close>

subsection \<open>Data model\<close>

text \<open>
  The decoded Redfish payloads (\<open>hmcollector.Power\<close>, \<open>hmcollector.EnclosureThermal\<close>) and
  the normalized events (\<open>hmcollector.Event\<close>). The parsers only pass the \<open>float64\<close> readings
  on to \<open>strconv.FormatFloat\<close>, so the type of readings is the parameter \<open>'f\<close>.
\<close>

record 'f PowerControl =
  Name :: string
  MemberId :: string
  PowerConsumedWatts :: 'f

record 'f PowerSupply =
  MemberId :: string
  LineInputVoltage :: 'f

record 'f Voltage =
  Name :: string
  ReadingVolts :: 'f

record 'f Power =
  PowerControl :: "'f PowerControl list"
  PowerSupplies :: "'f PowerSupply list"
  Voltages :: "'f Voltage list"

record 'f Temperature =
  Name :: string
  ReadingCelsius :: 'f

record 'f EnclosureThermal =
  Temperatures :: "'f Temperature list"

text \<open>
  A sensor payload. \<open>Index\<close> and \<open>ParentalIndex\<close> are \<open>*uint8\<close> in the source: \<open>None\<close> is the
  nil pointer. A field the parser does not set keeps Go's zero value (the empty string).
\<close>

record CrayJSONPayload =
  Timestamp :: string
  Location :: string
  PhysicalContext :: string
  DeviceSpecificContext :: string
  Index :: "8 word option"
  ParentalIndex :: "8 word option"
  Value :: string

record Sensors =
  Sensors :: "CrayJSONPayload list"
  TelemetrySource :: string

text \<open>The message identifiers are named constants of the package; only their names are used.\<close>

datatype MessageID = PowerMessageID | VoltageMessageID | TemperatureMessageID

record Event =
  MessageId :: MessageID
  EventTimestamp :: string
  Oem :: "Sensors option"

text \<open>A run-time panic is a value: the function does not return its events.\<close>

datatype panic =
  SliceBoundsOutOfRange nat nat
  | PanicMessage string

subsection \<open>The wall clock\<close>

text \<open>
  \<open>time.Now().Format(time.RFC3339)\<close> reads the wall clock. The clock is the stream of the
  readings still to come; a read takes the head.
\<close>

type_synonym clock = "string stream"

definition time_Now_Format :: "clock \<Rightarrow> string \<times> clock" where
  "time_Now_Format clk = (shd clk, stl clk)"

subsection \<open>Library functions the parsers call\<close>

text \<open>
  \<open>strconv.ParseUint(s, base, bitSize)\<close> of Go's standard library, for an explicit base
  between 2 and 36 and a bit size between 1 and 64. It returns a value and an error: on a
  syntax error the value is 0, on a range error it is the largest value of the bit size.
  The accumulator is a \<open>uint64\<close>; its wrap-around is written out.
\<close>

datatype NumError = ErrSyntax | ErrRange

definition maxUint64 :: nat where
  "maxUint64 = 18446744073709551615"

definition lower :: "nat \<Rightarrow> nat" where
  "lower c = or c 32"

definition ParseUint_digit :: "char \<Rightarrow> nat option" where
  "ParseUint_digit ch =
     (let c = (of_char ch :: nat) in
      if 48 \<le> c \<and> c \<le> 57 then Some (c - 48)
      else if 97 \<le> lower c \<and> lower c \<le> 122 then Some (lower c - 97 + 10)
      else None)"

fun ParseUint_loop :: "nat \<Rightarrow> nat \<Rightarrow> nat \<Rightarrow> string \<Rightarrow> nat \<Rightarrow> nat \<times> NumError option" where
  "ParseUint_loop base cutoff maxVal [] n = (n, None)"
| "ParseUint_loop base cutoff maxVal (c # cs) n =
     (case ParseUint_digit c of
        None \<Rightarrow> (0, Some ErrSyntax)
      | Some d \<Rightarrow>
          if d \<ge> base then (0, Some ErrSyntax)
          else if n \<ge> cutoff then (maxVal, Some ErrRange)
          else
            (let n' = (n * base) mod (maxUint64 + 1);
                 n1 = (n' + d) mod (maxUint64 + 1)
             in if n1 < n' \<or> n1 > maxVal then (maxVal, Some ErrRange)
                else ParseUint_loop base cutoff maxVal cs n1))"

definition ParseUint :: "string \<Rightarrow> nat \<Rightarrow> nat \<Rightarrow> nat \<times> NumError option" where
  "ParseUint s base bitSize =
     (if s = [] then (0, Some ErrSyntax)
      else ParseUint_loop base (maxUint64 div base + 1) (2 ^ bitSize - 1) s 0)"

text \<open>The conversion \<open>uint8(x)\<close> of a \<open>uint64\<close> keeps the low eight bits.\<close>

definition uint8 :: "nat \<Rightarrow> 8 word" where
  "uint8 x = of_nat x"

text \<open>
  What a member identifier denotes, to compare \<open>ParseUint\<close> with: the decimal digits, and
  the number that a string of decimal digits writes, read after the number \<open>n\<close>. The index
  of a member identifier is stated with them: 255 when the leading digits write a number
  above 255; else the number written, when all characters are digits (0 for the empty
  string); else 0.
\<close>

definition is_digit :: "char \<Rightarrow> bool" where
  "is_digit c = (48 \<le> (of_char c :: nat) \<and> (of_char c :: nat) \<le> 57)"

fun decimal :: "nat \<Rightarrow> string \<Rightarrow> nat" where
  "decimal n [] = n"
| "decimal n (c # cs) = decimal (10 * n + (of_char c - 48)) cs"

definition member_index :: "string \<Rightarrow> 8 word" where
  "member_index s =
     (if decimal 0 (takeWhile is_digit s) > 255 then 255
      else if list_all is_digit s then of_nat (decimal 0 s)
      else 0)"

text \<open>
  The slice expression \<open>s[lo:hi]\<close> on a string: Go panics unless \<open>lo \<le> hi \<le> len(s)\<close>.
\<close>

definition slice :: "string \<Rightarrow> nat \<Rightarrow> nat \<Rightarrow> panic + string" where
  "slice s lo hi =
     (if hi > length s then Inl (SliceBoundsOutOfRange hi (length s))
      else if lo > hi then Inl (SliceBoundsOutOfRange lo hi)
      else Inr (take (hi - lo) (drop lo s)))"

subsection \<open>ParseJSONPowerEvents\<close>

text \<open>
  \<open>json.Unmarshal\<close> and \<open>strconv.FormatFloat(x, 'f', -1, 64)\<close> are parameters:
  \<open>json_Unmarshal\<close> returns \<open>None\<close> where the library returns an error.
\<close>

definition PowerControl_payload ::
  "string \<Rightarrow> string \<Rightarrow> ('f \<Rightarrow> string) \<Rightarrow> 'f PowerControl \<Rightarrow> CrayJSONPayload" where
  "PowerControl_payload timestamp location FormatFloat pc =
     (let indexU64 = fst (ParseUint (PowerControl.MemberId pc) 10 8) in
      \<lparr>Timestamp = timestamp, Location = location, PhysicalContext = ''Chassis'',
       DeviceSpecificContext = '''', Index = Some (uint8 indexU64), ParentalIndex = None,
       Value = FormatFloat (PowerConsumedWatts pc)\<rparr>)"

fun PowerControl_loop ::
  "string \<Rightarrow> string \<Rightarrow> ('f \<Rightarrow> string) \<Rightarrow> 'f PowerControl list \<Rightarrow> CrayJSONPayload list
   \<Rightarrow> CrayJSONPayload list" where
  "PowerControl_loop timestamp location FormatFloat [] sensors = sensors"
| "PowerControl_loop timestamp location FormatFloat (pc # rest) sensors =
     (if PowerControl.Name pc = ''Server Power Control''
      then PowerControl_loop timestamp location FormatFloat rest
             (sensors @ [PowerControl_payload timestamp location FormatFloat pc])
      else PowerControl_loop timestamp location FormatFloat rest sensors)"

definition PowerSupply_payload ::
  "string \<Rightarrow> string \<Rightarrow> ('f \<Rightarrow> string) \<Rightarrow> 'f PowerSupply \<Rightarrow> CrayJSONPayload" where
  "PowerSupply_payload timestamp location FormatFloat ps =
     (let indexU64 = fst (ParseUint (PowerSupply.MemberId ps) 10 8) in
      \<lparr>Timestamp = timestamp, Location = location, PhysicalContext = ''PowerSupplyBay'',
       DeviceSpecificContext = '''', Index = Some (uint8 indexU64), ParentalIndex = None,
       Value = FormatFloat (LineInputVoltage ps)\<rparr>)"

fun PowerSupplies_loop ::
  "string \<Rightarrow> string \<Rightarrow> ('f \<Rightarrow> string) \<Rightarrow> 'f PowerSupply list \<Rightarrow> CrayJSONPayload list
   \<Rightarrow> CrayJSONPayload list" where
  "PowerSupplies_loop timestamp location FormatFloat [] sensors = sensors"
| "PowerSupplies_loop timestamp location FormatFloat (ps # rest) sensors =
     PowerSupplies_loop timestamp location FormatFloat rest
       (sensors @ [PowerSupply_payload timestamp location FormatFloat ps])"

definition Voltage_payload ::
  "string \<Rightarrow> string \<Rightarrow> ('f \<Rightarrow> string) \<Rightarrow> 'f Voltage \<Rightarrow> panic + CrayJSONPayload" where
  "Voltage_payload timestamp location FormatFloat v =
     (case slice (Voltage.Name v) 3 (length (Voltage.Name v)) of
        Inl p \<Rightarrow> Inl p
      | Inr suffix \<Rightarrow>
          Inr \<lparr>Timestamp = timestamp, Location = location, PhysicalContext = ''SystemBoard'',
               DeviceSpecificContext = suffix, Index = Some 0, ParentalIndex = None,
               Value = FormatFloat (ReadingVolts v)\<rparr>)"

fun Voltages_loop ::
  "string \<Rightarrow> string \<Rightarrow> ('f \<Rightarrow> string) \<Rightarrow> 'f Voltage list \<Rightarrow> CrayJSONPayload list
   \<Rightarrow> panic + CrayJSONPayload list" where
  "Voltages_loop timestamp location FormatFloat [] sensors = Inr sensors"
| "Voltages_loop timestamp location FormatFloat (v # rest) sensors =
     (case Voltage_payload timestamp location FormatFloat v of
        Inl p \<Rightarrow> Inl p
      | Inr payload \<Rightarrow> Voltages_loop timestamp location FormatFloat rest (sensors @ [payload]))"

definition ParseJSONPowerEvents ::
  "(string \<Rightarrow> 'f Power option) \<Rightarrow> ('f \<Rightarrow> string) \<Rightarrow> clock \<Rightarrow> string \<Rightarrow> string
   \<Rightarrow> (panic + Event list) \<times> clock" where
  "ParseJSONPowerEvents json_Unmarshal FormatFloat clk payloadBytes location =
     (let (timestamp, clk1) = time_Now_Format clk in
      case json_Unmarshal payloadBytes of
        None \<Rightarrow> (Inr [], clk1)
      | Some power' \<Rightarrow>
          (let (eventTimestamp, clk2) = time_Now_Format clk1;
               powerEvent =
                 \<lparr>MessageId = PowerMessageID, EventTimestamp = eventTimestamp,
                  Oem = Some \<lparr>Sensors =
                          PowerControl_loop timestamp location FormatFloat (PowerControl power') [],
                        TelemetrySource = ''River''\<rparr>\<rparr>;
               events = [] @ [powerEvent];
               supplySensors =
                 PowerSupplies_loop timestamp location FormatFloat (PowerSupplies power') []
           in case Voltages_loop timestamp location FormatFloat (Voltages power') supplySensors of
                Inl p \<Rightarrow> (Inl p, clk2)
              | Inr sensors \<Rightarrow>
                  (let voltageEvent =
                         \<lparr>MessageId = VoltageMessageID, EventTimestamp = timestamp,
                          Oem = Some \<lparr>Sensors = sensors, TelemetrySource = ''River''\<rparr>\<rparr>
                   in (Inr (events @ [voltageEvent]), clk2))))"

subsection \<open>ParseJSONThermalEvents\<close>

definition Temperature_payload ::
  "string \<Rightarrow> string \<Rightarrow> ('f \<Rightarrow> string) \<Rightarrow> 'f Temperature \<Rightarrow> CrayJSONPayload" where
  "Temperature_payload timestamp location FormatFloat t =
     \<lparr>Timestamp = timestamp, Location = location, PhysicalContext = ''Baseboard'',
      DeviceSpecificContext = Temperature.Name t, Index = Some 0, ParentalIndex = Some 0,
      Value = FormatFloat (ReadingCelsius t)\<rparr>"

fun Temperatures_loop ::
  "string \<Rightarrow> string \<Rightarrow> ('f \<Rightarrow> string) \<Rightarrow> 'f Temperature list \<Rightarrow> CrayJSONPayload list
   \<Rightarrow> CrayJSONPayload list" where
  "Temperatures_loop timestamp location FormatFloat [] sensors = sensors"
| "Temperatures_loop timestamp location FormatFloat (t # rest) sensors =
     Temperatures_loop timestamp location FormatFloat rest
       (sensors @ [Temperature_payload timestamp location FormatFloat t])"

definition ParseJSONThermalEvents ::
  "(string \<Rightarrow> 'f EnclosureThermal option) \<Rightarrow> ('f \<Rightarrow> string) \<Rightarrow> clock \<Rightarrow> string \<Rightarrow> string
   \<Rightarrow> Event list \<times> clock" where
  "ParseJSONThermalEvents json_Unmarshal FormatFloat clk payloadBytes location =
     (let (timestamp, clk1) = time_Now_Format clk in
      case json_Unmarshal payloadBytes of
        None \<Rightarrow> ([], clk1)
      | Some thermal \<Rightarrow>
          (let temperatureEvent =
                 \<lparr>MessageId = TemperatureMessageID, EventTimestamp = timestamp,
                  Oem = Some \<lparr>Sensors =
                          Temperatures_loop timestamp location FormatFloat (Temperatures thermal) [],
                        TelemetrySource = ''River''\<rparr>\<rparr>
           in ([] @ [temperatureEvent], clk1)))"

subsection \<open>The hand-off to the publisher\<close>

text \<open>
  Modelled from the spec: the step between a parser and the publisher is in the poller and
  the event ingress, which are not among the sources. The specification says of it that an
  empty event (no sensor payloads) must not be forwarded downstream; an event whose \<open>Oem\<close>
  pointer is nil has no sensor payloads either.
\<close>

definition forward_events :: "Event list \<Rightarrow> Event list" where
  "forward_events events =
     filter (\<lambda>event. case Oem event of None \<Rightarrow> False | Some oem \<Rightarrow> Sensors oem \<noteq> []) events"

section \<open>The collector process\<close>

subsection \<open>Logging\<close>

text \<open>
  The process logs through one \<open>zap\<close> logger, built by \<open>setupLogging\<close> on an atomic level.
  The levels are those of \<open>zapcore\<close>, with their numbers; the logger writes an entry when
  its level is at least the atomic level.
\<close>

datatype level = Debug | Info | Warn | Error | DPanic | Panic | Fatal

fun level_int :: "level \<Rightarrow> int" where
  "level_int Debug = - 1"
| "level_int Info = 0"
| "level_int Warn = 1"
| "level_int Error = 2"
| "level_int DPanic = 3"
| "level_int Panic = 4"
| "level_int Fatal = 5"

definition Enabled :: "level \<Rightarrow> level \<Rightarrow> bool" where
  "Enabled atomic lvl = (level_int lvl \<ge> level_int atomic)"

text \<open>
  The log is part of the state: the atomic level and the list of the entries written, each
  a level, a message and the fields passed along. \<open>zap.Any\<close> carries a value of the program,
  whose type is the parameter \<open>'a\<close>; \<open>zap.Error\<close> carries the text of an error, or nothing
  for a nil error.
\<close>

datatype 'a zap_field =
  zap_String string string
  | zap_Int string int
  | zap_Error "string option"
  | zap_Any string 'a

type_synonym 'a entry = "level \<times> string \<times> 'a zap_field list"

record 'a logging =
  atomicLevel :: level
  logged :: "'a entry list"

definition logger :: "level \<Rightarrow> string \<Rightarrow> 'a zap_field list \<Rightarrow> ('a, 'z) logging_scheme
    \<Rightarrow> ('a, 'z) logging_scheme" where
  "logger lvl msg fs g =
     (if Enabled (atomicLevel g) lvl then g\<lparr>logged := logged g @ [(lvl, msg, fs)]\<rparr> else g)"

text \<open>
  \<open>setupLogging\<close> takes the level from the environment variable \<open>LOG_LEVEL\<close>, in upper case;
  any other value gives \<open>Info\<close>. \<open>os.Getenv\<close> and \<open>strings.ToUpper\<close> are parameters.
\<close>

definition setupLogging ::
  "(string \<Rightarrow> string) \<Rightarrow> (string \<Rightarrow> string) \<Rightarrow> ('a, 'z) logging_scheme
   \<Rightarrow> ('a, 'z) logging_scheme" where
  "setupLogging Getenv ToUpper g =
     g\<lparr>atomicLevel :=
         (let logLevel = Getenv ''LOG_LEVEL'';
              logLevel = ToUpper logLevel
          in if logLevel = ''DEBUG'' then Debug
             else if logLevel = ''INFO'' then Info
             else if logLevel = ''WARN'' then Warn
             else if logLevel = ''ERROR'' then Error
             else if logLevel = ''FATAL'' then Fatal
             else if logLevel = ''PANIC'' then Panic
             else Info)\<rparr>"

subsection \<open>doUpdateHSMEndpoints\<close>

text \<open>
  The fields of \<open>rf.RedfishEPDescription\<close> that the collector reads or writes. The process
  keeps the inventory in the map \<open>HSMEndpoints\<close>, keyed by the endpoint's ID.
\<close>

record DiscoveryInfo =
  LastStatus :: string

record RedfishEPDescription =
  ID :: string
  FQDN :: string
  User :: string
  Password :: string
  DiscInfo :: DiscoveryInfo

record inventory = "RedfishEPDescription logging" +
  HSMEndpoints :: "string \<rightharpoonup> RedfishEPDescription"

text \<open>
  What the surroundings answer during one pass of the loop: the result of
  \<open>hmcollector.GetEndpointList\<close> (a nil slice is the empty list) and the behaviour of
  \<open>updateEndpointWithCredentials\<close>, which returns an error or the endpoint as it has changed
  it. Neither function is among the sources. The owner's setting \<open>VaultEnabled\<close> is a
  parameter.
\<close>

record hsm_tick =
  newEndpoints :: "RedfishEPDescription list"
  newEndpointsErr :: "string option"
  updateEndpointWithCredentials :: "RedfishEPDescription \<Rightarrow> string + RedfishEPDescription"

fun endpoints_loop ::
  "bool \<Rightarrow> (RedfishEPDescription \<Rightarrow> string + RedfishEPDescription)
   \<Rightarrow> RedfishEPDescription list \<Rightarrow> inventory \<Rightarrow> inventory" where
  "endpoints_loop VaultEnabled update [] g = g"
| "endpoints_loop VaultEnabled update (newEndpoint # rest) g =
     (if HSMEndpoints g (ID newEndpoint) \<noteq> None
      then endpoints_loop VaultEnabled update rest g
      else if LastStatus (DiscInfo newEndpoint) \<noteq> ''DiscoverOK''
      then endpoints_loop VaultEnabled update rest
             (logger Warn ''Ignoring endpoint because HSM status not DiscoveredOK''
                [zap_Any ''newEndpoint'' newEndpoint] g)
      else if VaultEnabled
      then (case update newEndpoint of
              Inl updateErr \<Rightarrow>
                endpoints_loop VaultEnabled update rest
                  (logger Error
                     ''Unable to update credentials for endpoint with those retrieved from Vault''
                     [zap_Error (Some updateErr), zap_Any ''newEndpoint'' newEndpoint] g)
            | Inr updated \<Rightarrow>
                endpoints_loop VaultEnabled update rest
                  ((logger Debug ''Updated endpoint credentials with those retrieved from Vault''
                      [zap_Any ''newEndpoint'' updated] g)
                   \<lparr>HSMEndpoints := (HSMEndpoints g)(ID updated \<mapsto> updated)\<rparr>))
      else endpoints_loop VaultEnabled update rest
             (g\<lparr>HSMEndpoints := (HSMEndpoints g)(ID newEndpoint \<mapsto> newEndpoint)\<rparr>))"

text \<open>
  One pass of \<open>for Running\<close>, up to the \<open>select\<close> that waits for the next pass or for the
  shutdown. The loop makes one pass for each answer in the list, then \<open>Running\<close> is false
  and it logs its end; the states it reaches are those after a list of answers.
\<close>

definition doUpdateHSMEndpoints_pass :: "bool \<Rightarrow> hsm_tick \<Rightarrow> inventory \<Rightarrow> inventory" where
  "doUpdateHSMEndpoints_pass VaultEnabled tick g =
     (if length (newEndpoints tick) = 0 \<or> newEndpointsErr tick \<noteq> None
      then logger Warn ''No endpoints retrieved from State Manager''
             [zap_Error (newEndpointsErr tick)] g
      else endpoints_loop VaultEnabled (updateEndpointWithCredentials tick) (newEndpoints tick) g)"

fun doUpdateHSMEndpoints_passes :: "bool \<Rightarrow> hsm_tick list \<Rightarrow> inventory \<Rightarrow> inventory" where
  "doUpdateHSMEndpoints_passes VaultEnabled [] g = g"
| "doUpdateHSMEndpoints_passes VaultEnabled (tick # ticks) g =
     doUpdateHSMEndpoints_passes VaultEnabled ticks (doUpdateHSMEndpoints_pass VaultEnabled tick g)"

definition doUpdateHSMEndpoints :: "bool \<Rightarrow> hsm_tick list \<Rightarrow> inventory \<Rightarrow> inventory" where
  "doUpdateHSMEndpoints VaultEnabled ticks g =
     logger Info ''HSM endpoint monitoring routine shutdown.'' []
       (doUpdateHSMEndpoints_passes VaultEnabled ticks g)"

subsection \<open>createRFClient and the start of main\<close>

text \<open>
  The state \<open>createRFClient\<close> and \<open>main\<close> work on: the flag \<open>hmcollector_ca_uri\<close>, the
  client pair \<open>rfClient\<close> (nil at first), and the fields of \<open>hms_certs.ConfigParams\<close> that
  \<open>createRFClient\<close> sets. Two counters record what the process has done: the calls of
  \<open>hms_certs.CreateHTTPClientPair\<close> made so far and the seconds spent in \<open>time.Sleep\<close>.

  \<open>os.Getenv\<close>, \<open>hms_certs.CreateHTTPClientPair\<close> and \<open>hms_certs.CAUpdateRegister\<close> are
  parameters. The library may answer differently at each call, so
  \<open>CreateHTTPClientPair\<close> is given the number of earlier calls besides the CA bundle URI and
  the timeout; it returns the text of an error or a client pair of type \<open>'c\<close>. The lock
  \<open>rfClientLock\<close> has no effect on a single thread and is left out.
\<close>

record ConfigParams =
  VaultCAUrl :: string
  VaultPKIUrl :: string
  VaultJWTFile :: string
  K8SAuthUrl :: string

record ('a, 'c) clients = "'a logging" +
  caURI :: string
  rfClient :: "'c option"
  hms_certs_ConfigParams :: ConfigParams
  created :: nat
  slept :: nat

text \<open>
  The four environment overrides at the head of \<open>createRFClient\<close> have one shape: if the
  variable is set, log it and store it in a field of \<open>hms_certs.ConfigParams\<close>.
\<close>

definition env_override ::
  "string \<Rightarrow> string \<Rightarrow> (string \<Rightarrow> ConfigParams \<Rightarrow> ConfigParams) \<Rightarrow> ('a, 'c) clients
   \<Rightarrow> ('a, 'c) clients" where
  "env_override envstr msg store g =
     (if envstr \<noteq> ''''
      then (logger Info msg [zap_String '''' envstr] g)
             \<lparr>hms_certs_ConfigParams := store envstr (hms_certs_ConfigParams g)\<rparr>
      else g)"

definition createRFClient ::
  "(string \<Rightarrow> string) \<Rightarrow> (nat \<Rightarrow> string \<Rightarrow> int \<Rightarrow> string + 'c) \<Rightarrow> int
   \<Rightarrow> ('a, 'c) clients \<Rightarrow> string option \<times> ('a, 'c) clients" where
  "createRFClient Getenv CreateHTTPClientPair httpTimeout g =
     (let g = env_override (Getenv ''HMCOLLECTOR_CA_PKI_URL'') ''Using CA PKI URL: ''
                (\<lambda>v p. p\<lparr>VaultCAUrl := v\<rparr>) g;
          g = env_override (Getenv ''HMCOLLECTOR_VAULT_PKI_URL'') ''Using VAULT PKI URL: ''
                (\<lambda>v p. p\<lparr>VaultPKIUrl := v\<rparr>) g;
          g = env_override (Getenv ''HMCOLLECTOR_VAULT_JWT_FILE'') ''Using Vault JWT file: ''
                (\<lambda>v p. p\<lparr>VaultJWTFile := v\<rparr>) g;
          g = env_override (Getenv ''HMCOLLECTOR_K8S_AUTH_URL'') ''Using K8S AUTH URL: ''
                (\<lambda>v p. p\<lparr>K8SAuthUrl := v\<rparr>) g;
          g = logger Info ''All RF threads paused.'' [] g;
          g = (if caURI g \<noteq> ''''
               then logger Info ''Creating Redfish HTTP client with CA trust bundle from''
                      [zap_String '''' (caURI g)] g
               else logger Info ''Creating Redfish HTTP client without CA trust bundle.'' [] g);
          result = CreateHTTPClientPair (created g) (caURI g) httpTimeout;
          g = g\<lparr>created := created g + 1\<rparr>
      in case result of
           Inl err \<Rightarrow> (Some (''ERROR: Can't create Redfish HTTP client: '' @ err), g)
         | Inr rfc \<Rightarrow> (None, g\<lparr>rfClient := Some rfc\<rparr>))"

text \<open>
  The loop \<open>for ix := 1; ix <= 10; ix++\<close> of \<open>main\<close>: it returns the flag \<open>ok\<close>.
\<close>

function main_retry ::
  "(string \<Rightarrow> string) \<Rightarrow> (nat \<Rightarrow> string \<Rightarrow> int \<Rightarrow> string + 'c) \<Rightarrow> int
   \<Rightarrow> nat \<Rightarrow> ('a, 'c) clients \<Rightarrow> bool \<times> ('a, 'c) clients" where
  "main_retry Getenv CreateHTTPClientPair httpTimeout ix g =
     (if ix \<le> 10
      then (case createRFClient Getenv CreateHTTPClientPair httpTimeout g of
              (None, g') \<Rightarrow>
                (True, logger Info ''Redfish HTTP client pair creation succeeded.'' [] g')
            | (Some err, g') \<Rightarrow>
                (let g' = logger Error ''TLS-verified client pair creation failure, ''
                            [zap_Int ''attempt'' (int ix), zap_Error (Some err)] g';
                     g' = g'\<lparr>slept := slept g' + 2\<rparr>
                 in main_retry Getenv CreateHTTPClientPair httpTimeout (ix + 1) g'))
      else (False, g))"
  by pat_completeness auto
termination
  by (relation "measure (\<lambda>(Getenv, CreateHTTPClientPair, httpTimeout, ix, g). 11 - ix)") auto

text \<open>
  The part of \<open>main\<close> that sets up the Redfish client pair: the loop, the fail-over to a
  pair without CA bundle, and the registration of the CA bundle watcher.
\<close>

definition main_clients ::
  "(string \<Rightarrow> string) \<Rightarrow> (nat \<Rightarrow> string \<Rightarrow> int \<Rightarrow> string + 'c) \<Rightarrow> int
   \<Rightarrow> (string \<Rightarrow> string option) \<Rightarrow> ('a, 'c) clients \<Rightarrow> panic + ('a, 'c) clients" where
  "main_clients Getenv CreateHTTPClientPair httpTimeout CAUpdateRegister g =
     (let (ok, g) = main_retry Getenv CreateHTTPClientPair httpTimeout 1 g;
          failover =
            (if \<not> ok
             then (let g = logger Error
                         ''Can't create secure HTTP client pair for Redfish, exhausted retries.''
                         [] g;
                       g = logger Error
                         ''   Making insecure client; Please check CA bundle URI for correctness.''
                         [] g;
                       g = g\<lparr>caURI := ''''\<rparr>
                   in case createRFClient Getenv CreateHTTPClientPair httpTimeout g of
                        (Some err, g) \<Rightarrow> Inl (PanicMessage ''Can't create Redfish HTTP client!!!'')
                      | (None, g) \<Rightarrow> Inr g)
             else Inr g)
      in case failover of
           Inl p \<Rightarrow> Inl p
         | Inr g \<Rightarrow>
             (if caURI g \<noteq> ''''
              then (case CAUpdateRegister (caURI g) of
                      Some err \<Rightarrow>
                        Inr (logger Warn ''   This means no updates when CA bundle is rolled.'' []
                               (logger Warn ''Unable to register CA bundle watcher for ''
                                  [zap_String ''URI'' (caURI g), zap_Error (Some err)] g))
                    | None \<Rightarrow> Inr g)
              else Inr (logger Warn ''No CA bundle URI specified, not watching for CA changes.''
                          [] g)))"

subsection \<open>The deferred flush at the end of main\<close>

text \<open>
  The function that \<open>main\<close> defers once the wait group is done walks \<open>kafkaBrokers\<close>. The
  producer's \<open>Flush\<close> (of the Kafka client library) is a parameter: given the number of
  earlier flushes, the broker and the timeout in milliseconds it returns the number of
  messages still not flushed. The state records each call of \<open>Flush\<close> with its timeout.
\<close>

record ('a, 'b) producers = "'a logging" +
  flushed :: "('b \<times> int) list"

fun main_deferred ::
  "(nat \<Rightarrow> 'b \<Rightarrow> int \<Rightarrow> int) \<Rightarrow> 'b list \<Rightarrow> ('b, 'b) producers \<Rightarrow> ('b, 'b) producers" where
  "main_deferred Flush [] g = g"
| "main_deferred Flush (thisBroker # rest) g =
     (let abandonedMessages = Flush (length (flushed g)) thisBroker (15 * 1000);
          g = g\<lparr>flushed := flushed g @ [(thisBroker, 15 * 1000)]\<rparr>;
          g = logger Info ''Closed connection with Kafka broker.''
                [zap_Any ''broker'' thisBroker, zap_Int ''abandonedMessages'' abandonedMessages] g
      in main_deferred Flush rest g)"

section \<open>Scenario inputs\<close>

text \<open>
  Two normalized events are equal up to the wall clock when they agree once the event
  timestamp and the timestamp of every sensor payload are blanked.
\<close>

definition erase_timestamps :: "Event \<Rightarrow> Event" where
  "erase_timestamps event =
     event\<lparr>EventTimestamp := '''',
           Oem := map_option (\<lambda>oem. oem\<lparr>Sensors := map (\<lambda>p. p\<lparr>Timestamp := ''''\<rparr>) (Sensors oem)\<rparr>)
                    (Oem event)\<rparr>"

text \<open>
  A wall clock that ticks once between two reads, a table for
  \<open>strconv.FormatFloat(x, 'f', -1, 64)\<close> at the readings of the scenarios, and the payloads
  of the scenarios of the specification (S1, S2, S3) with their decoded form. Two more
  payloads: a voltage rail whose name has two characters, and member identifiers that are
  no unsigned 8-bit numerals.
\<close>

definition wall_clock :: clock where
  "wall_clock = ''2020-12-16T10:00:00Z'' ## sconst ''2020-12-16T10:00:01Z''"

definition FormatFloat_table :: "real \<Rightarrow> string" where
  "FormatFloat_table x =
     (if x = 312.5 then ''312.5'' else if x = 208 then ''208''
      else if x = 12.01 then ''12.01'' else if x = 42 then ''42'' else ''0'')"

definition S1_payloadBytes :: string where
  \<open>S1_payloadBytes = ''{"PowerControl":[{"Name":"Server Power Control","MemberId":"0","PowerConsumedWatts":312.5}],"PowerSupplies":[{"MemberId":"1","LineInputVoltage":208}],"Voltages":[{"Name":"P12 VDD","ReadingVolts":12.01}]}''\<close>

definition S1_power :: "real Power" where
  "S1_power =
     \<lparr>PowerControl = [\<lparr>PowerControl.Name = ''Server Power Control'', MemberId = ''0'',
                        PowerConsumedWatts = 312.5\<rparr>],
      PowerSupplies = [\<lparr>PowerSupply.MemberId = ''1'', LineInputVoltage = 208\<rparr>],
      Voltages = [\<lparr>Voltage.Name = ''P12 VDD'', ReadingVolts = 12.01\<rparr>]\<rparr>"

definition S2_payloadBytes :: string where
  \<open>S2_payloadBytes = ''{"Temperatures":[{"Name":"CPU1","ReadingCelsius":42}]}''\<close>

definition S2_thermal :: "real EnclosureThermal" where
  "S2_thermal = \<lparr>Temperatures = [\<lparr>Temperature.Name = ''CPU1'', ReadingCelsius = 42\<rparr>]\<rparr>"

definition S3_payloadBytes :: string where
  \<open>S3_payloadBytes = ''{"PowerControl":[],"PowerSupplies":[],"Voltages":[]}''\<close>

definition S3_power :: "real Power" where
  "S3_power = \<lparr>PowerControl = [], PowerSupplies = [], Voltages = []\<rparr>"

definition short_name_payloadBytes :: string where
  \<open>short_name_payloadBytes = ''{"Voltages":[{"Name":"V1","ReadingVolts":12.01}]}''\<close>

definition short_name_power :: "real Power" where
  "short_name_power =
     \<lparr>PowerControl = [], PowerSupplies = [],
      Voltages = [\<lparr>Voltage.Name = ''V1'', ReadingVolts = 12.01\<rparr>]\<rparr>"

definition bad_member_payloadBytes :: string where
  \<open>bad_member_payloadBytes = ''{"PowerControl":[{"Name":"Server Power Control","MemberId":"300","PowerConsumedWatts":312.5}],"PowerSupplies":[{"MemberId":"abc","LineInputVoltage":208},{"MemberId":"256a","LineInputVoltage":208}],"Voltages":[{"Name":"P12 VDD","ReadingVolts":12.01}]}''\<close>

definition bad_member_power :: "real Power" where
  "bad_member_power =
     \<lparr>PowerControl = [\<lparr>PowerControl.Name = ''Server Power Control'', MemberId = ''300'',
                        PowerConsumedWatts = 312.5\<rparr>],
      PowerSupplies = [\<lparr>PowerSupply.MemberId = ''abc'', LineInputVoltage = 208\<rparr>,
                       \<lparr>PowerSupply.MemberId = ''256a'', LineInputVoltage = 208\<rparr>],
      Voltages = [\<lparr>Voltage.Name = ''P12 VDD'', ReadingVolts = 12.01\<rparr>]\<rparr>"







text \<open>
  The process state before the first \<open>createRFClient\<close>, with a CA bundle URI configured,
  and two behaviours of \<open>hms_certs.CreateHTTPClientPair\<close>: one that never succeeds and one
  that succeeds only without a CA bundle.
\<close>

definition clients0 :: "(unit, string) clients" where
  "clients0 = \<lparr>atomicLevel = Info, logged = [], caURI = ''vault://pki_common/ca_chain'', rfClient = None,
               hms_certs_ConfigParams =
                 \<lparr>VaultCAUrl = '''', VaultPKIUrl = '''', VaultJWTFile = '''', K8SAuthUrl = ''''\<rparr>,
               created = 0, slept = 0\<rparr>"

definition pair_never :: "nat \<Rightarrow> string \<Rightarrow> int \<Rightarrow> string + string" where
  "pair_never k uri timeout = Inl ''no transport''"

definition pair_without_CA :: "nat \<Rightarrow> string \<Rightarrow> int \<Rightarrow> string + string" where
  "pair_without_CA k uri timeout =
     (if uri = '''' then Inr ''insecure pair'' else Inl ''CA bundle not available'')"

text \<open>
  Log levels other than the default: the environment with \<open>LOG_LEVEL\<close> set, and
  \<open>strings.ToUpper\<close> on ASCII strings. A process state with two brokers to flush, and a
  \<open>Flush\<close> that leaves seven messages behind at the first call.
\<close>

definition ToUpper_ASCII :: "string \<Rightarrow> string" where
  "ToUpper_ASCII s =
     map (\<lambda>c. let n = (of_char c :: nat) in if 97 \<le> n \<and> n \<le> 122 then char_of (n - 32) else c) s"

definition env_LOG_LEVEL :: "string \<Rightarrow> string \<Rightarrow> string" where
  "env_LOG_LEVEL v name = (if name = ''LOG_LEVEL'' then v else '''')"

definition producers0 :: "(string, string) producers" where
  "producers0 = \<lparr>atomicLevel = Info, logged = [], flushed = []\<rparr>"

definition Flush_backlog :: "nat \<Rightarrow> string \<Rightarrow> int \<Rightarrow> int" where
  "Flush_backlog n broker timeoutMs = (if n = 0 then 7 else 0)"

section \<open>Properties of the parsers\<close>

subsection \<open>The loops as list functions\<close>

lemma PowerControl_loop_eq:
  "PowerControl_loop ts loc F pcs acc =
     acc @ map (PowerControl_payload ts loc F)
             (filter (\<lambda>pc. PowerControl.Name pc = ''Server Power Control'') pcs)"
  by (induction pcs arbitrary: acc) simp_all

lemma PowerSupplies_loop_eq:
  "PowerSupplies_loop ts loc F pss acc = acc @ map (PowerSupply_payload ts loc F) pss"
  by (induction pss arbitrary: acc) simp_all

lemma Temperatures_loop_eq:
  "Temperatures_loop ts loc F temps acc = acc @ map (Temperature_payload ts loc F) temps"
  by (induction temps arbitrary: acc) simp_all

lemma Voltage_payload_ok:
  "3 \<le> length (Voltage.Name v) \<Longrightarrow>
   Voltage_payload ts loc F v =
     Inr \<lparr>Timestamp = ts, Location = loc, PhysicalContext = ''SystemBoard'',
          DeviceSpecificContext = drop 3 (Voltage.Name v), Index = Some 0, ParentalIndex = None,
          Value = F (ReadingVolts v)\<rparr>"
  by (simp add: Voltage_payload_def slice_def)

lemma Voltage_payload_panic:
  "length (Voltage.Name v) < 3 \<Longrightarrow>
   Voltage_payload ts loc F v = Inl (SliceBoundsOutOfRange 3 (length (Voltage.Name v)))"
  by (simp add: Voltage_payload_def slice_def)

lemma ParseUint_0: "ParseUint ''0'' 10 8 = (0, None)"
  by (simp add: ParseUint_def ParseUint_digit_def lower_def maxUint64_def)

lemma ParseUint_1: "ParseUint ''1'' 10 8 = (1, None)"
  by (simp add: ParseUint_def ParseUint_digit_def lower_def maxUint64_def)

lemma ParseUint_300: "ParseUint ''300'' 10 8 = (255, Some ErrRange)"
  by (simp add: ParseUint_def ParseUint_digit_def lower_def maxUint64_def)

lemma ParseUint_abc: "ParseUint ''abc'' 10 8 = (0, Some ErrSyntax)"
  by (simp add: ParseUint_def ParseUint_digit_def lower_def maxUint64_def)

lemma wall_clock_reads:
  "shd wall_clock = ''2020-12-16T10:00:00Z''"
  "shd (stl wall_clock) = ''2020-12-16T10:00:01Z''"
  by (simp_all add: wall_clock_def)

subsection \<open>Scenario S1\<close>

text \<open>
  Claim C1, as the code has it. For the S1 payload and the location \<open>x3000c0s1b0\<close> the power
  parser returns exactly two events. The power event has one sensor payload: index 0,
  physical context \<open>Chassis\<close>, value \<open>312.5\<close>. The voltage event has two: one with index 1,
  physical context \<open>PowerSupplyBay\<close> and value \<open>208\<close>, and one with physical context
  \<open>SystemBoard\<close>, value \<open>12.01\<close> and the device-specific context \<open>" VDD"\<close>, which is the name
  \<open>"P12 VDD"\<close> without its first three characters (a blank, then \<open>VDD\<close>). Every payload
  carries the supplied location and the first clock reading; the power event carries the
  second reading.
\<close>

theorem S1_power_parse:
  assumes "json_Unmarshal payloadBytes = Some S1_power"
    and "FormatFloat 312.5 = ''312.5''" and "FormatFloat 208 = ''208''"
    and "FormatFloat 12.01 = ''12.01''"
  shows "fst (ParseJSONPowerEvents json_Unmarshal FormatFloat clk payloadBytes ''x3000c0s1b0'') =
     Inr [\<lparr>MessageId = PowerMessageID, EventTimestamp = shd (stl clk),
           Oem = Some \<lparr>Sensors =
                   [\<lparr>Timestamp = shd clk, Location = ''x3000c0s1b0'',
                     PhysicalContext = ''Chassis'', DeviceSpecificContext = '''',
                     Index = Some 0, ParentalIndex = None, Value = ''312.5''\<rparr>],
                 TelemetrySource = ''River''\<rparr>\<rparr>,
          \<lparr>MessageId = VoltageMessageID, EventTimestamp = shd clk,
           Oem = Some \<lparr>Sensors =
                   [\<lparr>Timestamp = shd clk, Location = ''x3000c0s1b0'',
                     PhysicalContext = ''PowerSupplyBay'', DeviceSpecificContext = '''',
                     Index = Some 1, ParentalIndex = None, Value = ''208''\<rparr>,
                    \<lparr>Timestamp = shd clk, Location = ''x3000c0s1b0'',
                     PhysicalContext = ''SystemBoard'', DeviceSpecificContext = '' VDD'',
                     Index = Some 0, ParentalIndex = None, Value = ''12.01''\<rparr>],
                 TelemetrySource = ''River''\<rparr>\<rparr>]"
  using assms
  by (simp add: ParseJSONPowerEvents_def time_Now_Format_def S1_power_def
      PowerControl_payload_def PowerSupply_payload_def Voltage_payload_def slice_def
      ParseUint_0 ParseUint_1 uint8_def)

text \<open>The theorem at the S1 payload, its hypotheses discharged.\<close>

theorem S1_power_parse_witness:
  "fst (ParseJSONPowerEvents (map_of [(S1_payloadBytes, S1_power)]) FormatFloat_table wall_clock
          S1_payloadBytes ''x3000c0s1b0'') =
     Inr [\<lparr>MessageId = PowerMessageID, EventTimestamp = ''2020-12-16T10:00:01Z'',
           Oem = Some \<lparr>Sensors =
                   [\<lparr>Timestamp = ''2020-12-16T10:00:00Z'', Location = ''x3000c0s1b0'',
                     PhysicalContext = ''Chassis'', DeviceSpecificContext = '''',
                     Index = Some 0, ParentalIndex = None, Value = ''312.5''\<rparr>],
                 TelemetrySource = ''River''\<rparr>\<rparr>,
          \<lparr>MessageId = VoltageMessageID, EventTimestamp = ''2020-12-16T10:00:00Z'',
           Oem = Some \<lparr>Sensors =
                   [\<lparr>Timestamp = ''2020-12-16T10:00:00Z'', Location = ''x3000c0s1b0'',
                     PhysicalContext = ''PowerSupplyBay'', DeviceSpecificContext = '''',
                     Index = Some 1, ParentalIndex = None, Value = ''208''\<rparr>,
                    \<lparr>Timestamp = ''2020-12-16T10:00:00Z'', Location = ''x3000c0s1b0'',
                     PhysicalContext = ''SystemBoard'', DeviceSpecificContext = '' VDD'',
                     Index = Some 0, ParentalIndex = None, Value = ''12.01''\<rparr>],
                 TelemetrySource = ''River''\<rparr>\<rparr>]"
  using S1_power_parse [of "map_of [(S1_payloadBytes, S1_power)]" S1_payloadBytes
      FormatFloat_table wall_clock]
  by (simp add: FormatFloat_table_def wall_clock_reads)

text \<open>
  Claim C1 as stated expects the device-specific context \<open>"2 VDD"\<close> for the rail: the
  parser yields \<open>" VDD"\<close>.
\<close>

theorem S1_rail_context_counterexample:
  "map (\<lambda>event. map DeviceSpecificContext (case Oem event of None \<Rightarrow> [] | Some oem \<Rightarrow> Sensors oem))
     (case fst (ParseJSONPowerEvents (map_of [(S1_payloadBytes, S1_power)]) FormatFloat_table
                  wall_clock S1_payloadBytes ''x3000c0s1b0'') of
        Inl p \<Rightarrow> [] | Inr events \<Rightarrow> events) = [[''''], ['''', '' VDD'']]
   \<and> '' VDD'' \<noteq> ''2 VDD''"
  by (simp add: ParseJSONPowerEvents_def time_Now_Format_def S1_power_def
      PowerControl_payload_def PowerSupply_payload_def Voltage_payload_def slice_def)

subsection \<open>Empty events\<close>

text \<open>
  Claim C2. No event whose list of sensor payloads is empty passes the hand-off to the
  publisher, whatever the events are; and for a payload that decodes to empty
  \<open>PowerControl\<close>, \<open>PowerSupplies\<close> and \<open>Voltages\<close> the power parser returns two events, none of
  which is forwarded.
\<close>

theorem no_empty_event_forwarded:
  "(\<forall>event \<in> set (forward_events events). \<exists>oem. Oem event = Some oem \<and> Sensors oem \<noteq> []) \<and>
   (json_Unmarshal payloadBytes = Some \<lparr>PowerControl = [], PowerSupplies = [], Voltages = []\<rparr> \<longrightarrow>
    (\<exists>parsed. fst (ParseJSONPowerEvents json_Unmarshal FormatFloat clk payloadBytes location)
        = Inr parsed \<and> length parsed = 2 \<and> forward_events parsed = []))"
  by (auto simp: forward_events_def ParseJSONPowerEvents_def time_Now_Format_def
      split: option.splits)

text \<open>
  The theorem at the S3 payload, and at the events of the S2 payload, of which one is
  forwarded.
\<close>

theorem no_empty_event_forwarded_witness:
  "(\<exists>parsed. fst (ParseJSONPowerEvents (map_of [(S3_payloadBytes, S3_power)]) FormatFloat_table
        wall_clock S3_payloadBytes ''x3000c0s1b0'') = Inr parsed \<and> length parsed = 2 \<and>
      forward_events parsed = []) \<and>
   list_all (\<lambda>event. \<exists>oem. Oem event = Some oem \<and> Sensors oem \<noteq> [])
     (forward_events
        (fst (ParseJSONThermalEvents (map_of [(S2_payloadBytes, S2_thermal)]) FormatFloat_table
           wall_clock S2_payloadBytes ''x3000c0s1b0''))) \<and>
   length (forward_events
        (fst (ParseJSONThermalEvents (map_of [(S2_payloadBytes, S2_thermal)]) FormatFloat_table
           wall_clock S2_payloadBytes ''x3000c0s1b0''))) = 1"
  using no_empty_event_forwarded [of
      "fst (ParseJSONThermalEvents (map_of [(S2_payloadBytes, S2_thermal)]) FormatFloat_table
           wall_clock S2_payloadBytes ''x3000c0s1b0'')"
      "map_of [(S3_payloadBytes, S3_power)]" S3_payloadBytes FormatFloat_table wall_clock
      "''x3000c0s1b0''"]
  by (simp add: S3_power_def ParseJSONThermalEvents_def time_Now_Format_def S2_thermal_def
      forward_events_def)

subsection \<open>Short voltage names\<close>

text \<open>
  Claim C4 at the voltage name \<open>"V1"\<close>: the slice \<open>Name[3:len(Name)]\<close> is out of range, the
  parser panics and returns no event, where the claim expects the payload with an empty
  device-specific context.
\<close>

theorem short_voltage_name_panics:
  "fst (ParseJSONPowerEvents (map_of [(short_name_payloadBytes, short_name_power)])
          FormatFloat_table wall_clock short_name_payloadBytes ''x3000c0s1b0'') =
     Inl (SliceBoundsOutOfRange 3 2)"
  by (simp add: ParseJSONPowerEvents_def time_Now_Format_def short_name_power_def
      Voltage_payload_def slice_def)

subsection \<open>Member identifiers\<close>

lemma Voltages_loop_ok:
  "\<forall>v \<in> set vs. 3 \<le> length (Voltage.Name v) \<Longrightarrow>
   Voltages_loop ts loc F vs acc =
     Inr (acc @ map (\<lambda>v. \<lparr>Timestamp = ts, Location = loc, PhysicalContext = ''SystemBoard'',
          DeviceSpecificContext = drop 3 (Voltage.Name v), Index = Some 0, ParentalIndex = None,
          Value = F (ReadingVolts v)\<rparr>) vs)"
  by (induction vs arbitrary: acc) (simp_all add: Voltage_payload_ok)

lemma decimal_ge: "n \<le> decimal n cs"
proof (induction cs arbitrary: n)
  case Nil
  then show ?case by simp
next
  case (Cons c cs)
  have "n \<le> 10 * n + (of_char c - 48)"
    by simp
  also have "\<dots> \<le> decimal (10 * n + (of_char c - 48)) cs"
    by (rule Cons.IH)
  finally show ?case
    by simp
qed

lemma ParseUint_digit_is_digit:
  "is_digit c \<Longrightarrow> ParseUint_digit c = Some (of_char c - 48) \<and> (of_char c :: nat) - 48 < 10"
  by (auto simp: ParseUint_digit_def is_digit_def Let_def)

lemma ParseUint_digit_no_digit:
  "\<not> is_digit c \<Longrightarrow> ParseUint_digit c = None \<or> (\<exists>d. ParseUint_digit c = Some d \<and> 10 \<le> d)"
  by (auto simp: ParseUint_digit_def is_digit_def Let_def)

lemma ParseUint_loop_decimal:
  "n \<le> 255 \<Longrightarrow>
   ParseUint_loop 10 (maxUint64 div 10 + 1) 255 cs n =
     (if decimal n (takeWhile is_digit cs) > 255 then (255, Some ErrRange)
      else if list_all is_digit cs then (decimal n cs, None)
      else (0, Some ErrSyntax))"
proof (induction cs arbitrary: n)
  case Nil
  then show ?case by simp
next
  case (Cons c cs)
  show ?case
  proof (cases "is_digit c")
    case False
    with ParseUint_digit_no_digit [of c] Cons.prems show ?thesis
      by auto
  next
    case True
    define d where "d = (of_char c :: nat) - 48"
    from ParseUint_digit_is_digit [OF True] have d: "ParseUint_digit c = Some d" "d < 10"
      by (simp_all add: d_def)
    from Cons.prems have cut: "\<not> maxUint64 div 10 + 1 \<le> n"
      by (simp add: maxUint64_def)
    from Cons.prems d have small: "(n * 10) mod (maxUint64 + 1) = n * 10"
      "(n * 10 + d) mod (maxUint64 + 1) = n * 10 + d"
      by (simp_all add: maxUint64_def)
    show ?thesis
    proof (cases "n * 10 + d > 255")
      case big: True
      have "n * 10 + d \<le> decimal (n * 10 + d) (takeWhile is_digit cs)"
        by (rule decimal_ge)
      with big have "decimal (10 * n + d) (takeWhile is_digit cs) > 255"
        by (simp add: mult.commute)
      with big True d cut small show ?thesis
        by (simp add: Let_def d_def mult.commute)
    next
      case False
      then have le: "n * 10 + d \<le> 255"
        by simp
      from Cons.IH [OF le] True d cut small False show ?thesis
        by (simp add: Let_def d_def mult.commute)
    qed
  qed
qed

lemma ParseUint_index: "uint8 (fst (ParseUint s 10 8)) = member_index s"
proof (cases "s = []")
  case True
  then show ?thesis
    by (simp add: ParseUint_def member_index_def uint8_def)
next
  case False
  then show ?thesis
    using ParseUint_loop_decimal [of 0 s]
    by (simp add: ParseUint_def member_index_def uint8_def)
qed

lemma member_index_examples:
  "member_index ''300'' = 255" "member_index ''abc'' = 0" "member_index ''256a'' = 255"
  "member_index ''12x'' = 0" "member_index '''' = 0" "member_index ''17'' = 17"
  by (simp_all add: member_index_def is_digit_def)

lemma ParseUint_256a: "ParseUint ''256a'' 10 8 = (255, Some ErrRange)"
  by (simp add: ParseUint_def ParseUint_digit_def lower_def maxUint64_def)

text \<open>
  Claim C5 as stated expects an entry whose member identifier is no unsigned 8-bit numeral
  to be skipped. The power control entry with member identifier \<open>300\<close> yields a payload with
  index 255, the power supply with member identifier \<open>abc\<close> a payload with index 0 and the
  one with member identifier \<open>256a\<close> a payload with index 255.
\<close>

theorem member_id_counterexample:
  "fst (ParseJSONPowerEvents (map_of [(bad_member_payloadBytes, bad_member_power)])
          FormatFloat_table wall_clock bad_member_payloadBytes ''x3000c0s1b0'') =
     Inr [\<lparr>MessageId = PowerMessageID, EventTimestamp = ''2020-12-16T10:00:01Z'',
           Oem = Some \<lparr>Sensors =
                   [\<lparr>Timestamp = ''2020-12-16T10:00:00Z'', Location = ''x3000c0s1b0'',
                     PhysicalContext = ''Chassis'', DeviceSpecificContext = '''',
                     Index = Some 255, ParentalIndex = None, Value = ''312.5''\<rparr>],
                 TelemetrySource = ''River''\<rparr>\<rparr>,
          \<lparr>MessageId = VoltageMessageID, EventTimestamp = ''2020-12-16T10:00:00Z'',
           Oem = Some \<lparr>Sensors =
                   [\<lparr>Timestamp = ''2020-12-16T10:00:00Z'', Location = ''x3000c0s1b0'',
                     PhysicalContext = ''PowerSupplyBay'', DeviceSpecificContext = '''',
                     Index = Some 0, ParentalIndex = None, Value = ''208''\<rparr>,
                    \<lparr>Timestamp = ''2020-12-16T10:00:00Z'', Location = ''x3000c0s1b0'',
                     PhysicalContext = ''PowerSupplyBay'', DeviceSpecificContext = '''',
                     Index = Some 255, ParentalIndex = None, Value = ''208''\<rparr>,
                    \<lparr>Timestamp = ''2020-12-16T10:00:00Z'', Location = ''x3000c0s1b0'',
                     PhysicalContext = ''SystemBoard'', DeviceSpecificContext = '' VDD'',
                     Index = Some 0, ParentalIndex = None, Value = ''12.01''\<rparr>],
                 TelemetrySource = ''River''\<rparr>\<rparr>]
   \<and> snd (ParseUint ''300'' 10 8) = Some ErrRange \<and> snd (ParseUint ''abc'' 10 8) = Some ErrSyntax
   \<and> snd (ParseUint ''256a'' 10 8) = Some ErrRange"
  by (simp add: ParseJSONPowerEvents_def time_Now_Format_def bad_member_power_def
      PowerControl_payload_def PowerSupply_payload_def Voltage_payload_def slice_def
      FormatFloat_table_def ParseUint_300 ParseUint_abc ParseUint_256a uint8_def wall_clock_reads)

text \<open>
  Claim C5, as the code has it. For a payload that decodes and whose voltage names all have
  at least three bytes, the power parser returns its two events, and every power control
  entry named \<open>Server Power Control\<close> and every power supply has its sensor payload, whether
  or not its member identifier parses. The index of the payload is read off the member
  identifier: 255 when its leading decimal digits write a number above 255; else the
  number written, when all its characters are decimal digits (0 for the empty string);
  else 0. The payloads of the voltage rails follow those of the power supplies, with
  index 0.
\<close>

theorem member_id_index:
  assumes "json_Unmarshal payloadBytes = Some power'"
    and "\<forall>v \<in> set (Voltages power'). 3 \<le> length (Voltage.Name v)"
  shows "\<exists>powerOem voltageOem.
      fst (ParseJSONPowerEvents json_Unmarshal FormatFloat clk payloadBytes location) =
        Inr [\<lparr>MessageId = PowerMessageID, EventTimestamp = shd (stl clk), Oem = Some powerOem\<rparr>,
             \<lparr>MessageId = VoltageMessageID, EventTimestamp = shd clk, Oem = Some voltageOem\<rparr>] \<and>
      map Index (Sensors powerOem) =
        map (\<lambda>pc. Some (member_index (PowerControl.MemberId pc)))
          (filter (\<lambda>pc. PowerControl.Name pc = ''Server Power Control'') (PowerControl power')) \<and>
      map Index (Sensors voltageOem) =
        map (\<lambda>ps. Some (member_index (PowerSupply.MemberId ps))) (PowerSupplies power') @
        map (\<lambda>v. Some 0) (Voltages power')"
  using assms
  by (simp add: ParseJSONPowerEvents_def time_Now_Format_def Voltages_loop_ok
      PowerControl_loop_eq PowerSupplies_loop_eq PowerControl_payload_def
      PowerSupply_payload_def ParseUint_index comp_def)

text \<open>The theorem at the member identifiers \<open>300\<close>, \<open>abc\<close> and \<open>256a\<close>.\<close>

theorem member_id_index_witness:
  "\<exists>powerOem voltageOem.
      fst (ParseJSONPowerEvents (map_of [(bad_member_payloadBytes, bad_member_power)])
          FormatFloat_table wall_clock bad_member_payloadBytes ''x3000c0s1b0'') =
        Inr [\<lparr>MessageId = PowerMessageID, EventTimestamp = ''2020-12-16T10:00:01Z'',
              Oem = Some powerOem\<rparr>,
             \<lparr>MessageId = VoltageMessageID, EventTimestamp = ''2020-12-16T10:00:00Z'',
              Oem = Some voltageOem\<rparr>] \<and>
      map Index (Sensors powerOem) = [Some 255] \<and>
      map Index (Sensors voltageOem) = [Some 0, Some 255, Some 0]"
proof -
  have u: "map_of [(bad_member_payloadBytes, bad_member_power)] bad_member_payloadBytes
     = Some bad_member_power"
    by simp
  have v: "\<forall>v \<in> set (Voltages bad_member_power). 3 \<le> length (Voltage.Name v)"
    by (simp add: bad_member_power_def)
  from member_id_index [where json_Unmarshal = "map_of [(bad_member_payloadBytes, bad_member_power)]"
      and payloadBytes = bad_member_payloadBytes and power' = bad_member_power
      and FormatFloat = FormatFloat_table and clk = wall_clock and location = "''x3000c0s1b0''",
      OF u v]
  show ?thesis
    by (simp add: bad_member_power_def member_index_def is_digit_def wall_clock_reads)
qed

subsection \<open>Payloads that do not decode\<close>

text \<open>
  Claim C6, as the code has it. For a byte string that \<open>json.Unmarshal\<close> rejects, both parsers
  return the empty list of events after one clock read. The return is an ordinary one: the
  parsers have no error result.
\<close>

theorem undecodable_payload_returns_no_events:
  assumes "power_Unmarshal payloadBytes = None" and "thermal_Unmarshal payloadBytes = None"
  shows "ParseJSONPowerEvents power_Unmarshal FormatFloat clk payloadBytes location
           = (Inr [], stl clk) \<and>
         ParseJSONThermalEvents thermal_Unmarshal FormatFloat clk payloadBytes location
           = ([], stl clk)"
  using assms
  by (simp add: ParseJSONPowerEvents_def ParseJSONThermalEvents_def time_Now_Format_def)

text \<open>The theorem at the byte string \<open>{\<close>.\<close>

theorem undecodable_payload_returns_no_events_witness:
  "ParseJSONPowerEvents (map_of [(S1_payloadBytes, S1_power)]) FormatFloat_table wall_clock
       ''{'' ''x3000c0s1b0'' = (Inr [], stl wall_clock) \<and>
   ParseJSONThermalEvents (map_of [(S2_payloadBytes, S2_thermal)]) FormatFloat_table wall_clock
       ''{'' ''x3000c0s1b0'' = ([], stl wall_clock)"
  using undecodable_payload_returns_no_events [of "map_of [(S1_payloadBytes, S1_power)]" "''{''"
      "map_of [(S2_payloadBytes, S2_thermal)]" FormatFloat_table wall_clock "''x3000c0s1b0''"]
  by (simp add: S1_payloadBytes_def S2_payloadBytes_def)

text \<open>
  Claim C6 as stated expects an error to be signalled to the caller. At a byte string that
  does not decode the power parser returns normally; the thermal parser's result is a
  plain list of events.
\<close>

theorem undecodable_payload_counterexample:
  "map_of [(S1_payloadBytes, S1_power)] ''{'' = None \<and>
   \<not> isl (fst (ParseJSONPowerEvents (map_of [(S1_payloadBytes, S1_power)]) FormatFloat_table
                 wall_clock ''{'' ''x3000c0s1b0'')) \<and>
   map_of [(S2_payloadBytes, S2_thermal)] ''{'' = None \<and>
   fst (ParseJSONThermalEvents (map_of [(S2_payloadBytes, S2_thermal)]) FormatFloat_table
          wall_clock ''{'' ''x3000c0s1b0'') = []"
  by (simp add: ParseJSONPowerEvents_def ParseJSONThermalEvents_def time_Now_Format_def
      S1_payloadBytes_def S2_payloadBytes_def)

subsection \<open>Determinism and the clock\<close>

lemma PowerControl_loop_erase:
  "map (\<lambda>p. p\<lparr>Timestamp := ''''\<rparr>) (PowerControl_loop ts loc F pcs []) =
   map (\<lambda>p. p\<lparr>Timestamp := ''''\<rparr>) (PowerControl_loop ts' loc F pcs [])"
  by (simp add: PowerControl_loop_eq PowerControl_payload_def)

lemma PowerSupplies_loop_erase:
  "map (\<lambda>p. p\<lparr>Timestamp := ''''\<rparr>) (PowerSupplies_loop ts loc F pss []) =
   map (\<lambda>p. p\<lparr>Timestamp := ''''\<rparr>) (PowerSupplies_loop ts' loc F pss [])"
  by (simp add: PowerSupplies_loop_eq PowerSupply_payload_def)

lemma Temperatures_loop_erase:
  "map (\<lambda>p. p\<lparr>Timestamp := ''''\<rparr>) (Temperatures_loop ts loc F temps []) =
   map (\<lambda>p. p\<lparr>Timestamp := ''''\<rparr>) (Temperatures_loop ts' loc F temps [])"
  by (simp add: Temperatures_loop_eq Temperature_payload_def)

lemma Voltages_loop_erase:
  "map (\<lambda>p. p\<lparr>Timestamp := ''''\<rparr>) acc = map (\<lambda>p. p\<lparr>Timestamp := ''''\<rparr>) acc' \<Longrightarrow>
   map_sum id (map (\<lambda>p. p\<lparr>Timestamp := ''''\<rparr>)) (Voltages_loop ts loc F vs acc) =
   map_sum id (map (\<lambda>p. p\<lparr>Timestamp := ''''\<rparr>)) (Voltages_loop ts' loc F vs acc')"
proof (induction vs arbitrary: acc acc')
  case Nil
  then show ?case by simp
next
  case (Cons v vs)
  show ?case
  proof (cases "3 \<le> length (Voltage.Name v)")
    case True
    have "map (\<lambda>p. p\<lparr>Timestamp := ''''\<rparr>)
            (acc @ [\<lparr>Timestamp = ts, Location = loc, PhysicalContext = ''SystemBoard'',
               DeviceSpecificContext = drop 3 (Voltage.Name v), Index = Some 0,
               ParentalIndex = None, Value = F (ReadingVolts v)\<rparr>]) =
          map (\<lambda>p. p\<lparr>Timestamp := ''''\<rparr>)
            (acc' @ [\<lparr>Timestamp = ts', Location = loc, PhysicalContext = ''SystemBoard'',
               DeviceSpecificContext = drop 3 (Voltage.Name v), Index = Some 0,
               ParentalIndex = None, Value = F (ReadingVolts v)\<rparr>])"
      using Cons.prems by simp
    from Cons.IH [OF this] True show ?thesis
      by (simp add: Voltage_payload_ok)
  next
    case False
    then show ?thesis
      by (simp add: Voltage_payload_panic)
  qed
qed

text \<open>
  Claim C7, as the code has it. Two invocations of the same parser on the same payload and
  location, at any two states of the wall clock, yield the same outcome up to the
  timestamp fields. The parsers read the wall clock themselves: the thermal parser once,
  the power parser once when the payload does not decode and twice when it does.
\<close>

theorem parsers_equal_up_to_timestamps:
  "map_sum id (map erase_timestamps)
     (fst (ParseJSONPowerEvents power_Unmarshal FormatFloat clk payloadBytes location)) =
   map_sum id (map erase_timestamps)
     (fst (ParseJSONPowerEvents power_Unmarshal FormatFloat clk' payloadBytes location)) \<and>
   map erase_timestamps
     (fst (ParseJSONThermalEvents thermal_Unmarshal FormatFloat clk payloadBytes location)) =
   map erase_timestamps
     (fst (ParseJSONThermalEvents thermal_Unmarshal FormatFloat clk' payloadBytes location)) \<and>
   snd (ParseJSONPowerEvents power_Unmarshal FormatFloat clk payloadBytes location) =
     (if power_Unmarshal payloadBytes = None then stl clk else stl (stl clk)) \<and>
   snd (ParseJSONThermalEvents thermal_Unmarshal FormatFloat clk payloadBytes location) = stl clk"
proof -
  have p: "map_sum id (map erase_timestamps)
     (fst (ParseJSONPowerEvents power_Unmarshal FormatFloat clk payloadBytes location)) =
   map_sum id (map erase_timestamps)
     (fst (ParseJSONPowerEvents power_Unmarshal FormatFloat clk' payloadBytes location))"
    using Voltages_loop_erase [of "PowerSupplies_loop (shd clk) location FormatFloat
          (PowerSupplies (the (power_Unmarshal payloadBytes))) []"
        "PowerSupplies_loop (shd clk') location FormatFloat
          (PowerSupplies (the (power_Unmarshal payloadBytes))) []"
        "shd clk" location FormatFloat "Voltages (the (power_Unmarshal payloadBytes))" "shd clk'"]
    by (auto simp: ParseJSONPowerEvents_def time_Now_Format_def erase_timestamps_def
        PowerControl_loop_erase PowerSupplies_loop_erase
        split: option.splits sum.splits)
  have t: "map erase_timestamps
     (fst (ParseJSONThermalEvents thermal_Unmarshal FormatFloat clk payloadBytes location)) =
   map erase_timestamps
     (fst (ParseJSONThermalEvents thermal_Unmarshal FormatFloat clk' payloadBytes location))"
    by (simp add: ParseJSONThermalEvents_def time_Now_Format_def erase_timestamps_def
        Temperatures_loop_erase split: option.splits)
  have c: "snd (ParseJSONPowerEvents power_Unmarshal FormatFloat clk payloadBytes location) =
     (if power_Unmarshal payloadBytes = None then stl clk else stl (stl clk))"
    by (simp add: ParseJSONPowerEvents_def time_Now_Format_def split: option.splits sum.splits)
  have d: "snd (ParseJSONThermalEvents thermal_Unmarshal FormatFloat clk payloadBytes location)
     = stl clk"
    by (simp add: ParseJSONThermalEvents_def time_Now_Format_def split: option.splits)
  from p t c d show ?thesis
    by blast
qed

text \<open>
  Claim C7 as stated has the parsers read no clock but a timestamp supplied by the caller.
  On a clock that ticks between two reads the two events of one power parse carry
  different timestamps, and two thermal parses of the same payload and location carry the
  reading of the wall clock at each call.
\<close>

theorem clock_read_counterexample:
  "map EventTimestamp
     (case fst (ParseJSONPowerEvents (map_of [(S1_payloadBytes, S1_power)]) FormatFloat_table
                  wall_clock S1_payloadBytes ''x3000c0s1b0'') of
        Inl p \<Rightarrow> [] | Inr events \<Rightarrow> events) =
     [''2020-12-16T10:00:01Z'', ''2020-12-16T10:00:00Z''] \<and>
   map EventTimestamp
     (fst (ParseJSONThermalEvents (map_of [(S2_payloadBytes, S2_thermal)]) FormatFloat_table
        wall_clock S2_payloadBytes ''x3000c0s1b0'')) = [''2020-12-16T10:00:00Z''] \<and>
   map EventTimestamp
     (fst (ParseJSONThermalEvents (map_of [(S2_payloadBytes, S2_thermal)]) FormatFloat_table
        (stl wall_clock) S2_payloadBytes ''x3000c0s1b0'')) = [''2020-12-16T10:00:01Z'']"
  by (simp add: ParseJSONPowerEvents_def ParseJSONThermalEvents_def time_Now_Format_def
      wall_clock_def S1_power_def Voltage_payload_def slice_def)

subsection \<open>Indices of temperature payloads\<close>

text \<open>
  Claim C10. For a payload that decodes, the thermal parser returns one temperature event
  with one sensor payload per temperature reading, and every one of them has a present
  \<open>Index\<close> and a present \<open>ParentalIndex\<close>, both 0, whatever the payload holds.
\<close>

theorem thermal_indices_zero:
  assumes "json_Unmarshal payloadBytes = Some thermal"
  shows "\<exists>event oem.
      fst (ParseJSONThermalEvents json_Unmarshal FormatFloat clk payloadBytes location) = [event] \<and>
      MessageId event = TemperatureMessageID \<and> Oem event = Some oem \<and>
      length (Sensors oem) = length (Temperatures thermal) \<and>
      (\<forall>payload \<in> set (Sensors oem). Index payload = Some 0 \<and> ParentalIndex payload = Some 0)"
  using assms
  by (auto simp: ParseJSONThermalEvents_def time_Now_Format_def Temperatures_loop_eq
      Temperature_payload_def)

text \<open>The theorem at the S2 payload.\<close>

theorem thermal_indices_zero_witness:
  "\<exists>event oem.
      fst (ParseJSONThermalEvents (map_of [(S2_payloadBytes, S2_thermal)]) FormatFloat_table
             wall_clock S2_payloadBytes ''x3000c0s1b0'') = [event] \<and>
      MessageId event = TemperatureMessageID \<and> Oem event = Some oem \<and>
      length (Sensors oem) = 1 \<and>
      (\<forall>payload \<in> set (Sensors oem). Index payload = Some 0 \<and> ParentalIndex payload = Some 0)"
  using thermal_indices_zero [of "map_of [(S2_payloadBytes, S2_thermal)]" S2_payloadBytes
      S2_thermal FormatFloat_table wall_clock "''x3000c0s1b0''"]
  by (simp add: S2_thermal_def)

section \<open>Properties of the collector process\<close>

subsection \<open>The endpoint inventory\<close>

lemma HSMEndpoints_logger [simp]: "HSMEndpoints (logger lvl msg fs g) = HSMEndpoints g"
  by (simp add: logger_def)











subsection \<open>Start-up of the Redfish client pair\<close>

declare main_retry.simps [simp del]

lemma logger_clients [simp]:
  "atomicLevel (logger lvl msg fs g) = atomicLevel g"
  "caURI (logger lvl msg fs g) = caURI g"
  "created (logger lvl msg fs g) = created g"
  "slept (logger lvl msg fs g) = slept g"
  "rfClient (logger lvl msg fs g) = rfClient g"
  by (simp_all add: logger_def)

lemma logged_logger:
  "logged (logger lvl msg fs g) =
     logged g @ (if Enabled (atomicLevel g) lvl then [(lvl, msg, fs)] else [])"
  by (simp add: logger_def)

lemma env_override_clients [simp]:
  "atomicLevel (env_override v msg store g) = atomicLevel g"
  "caURI (env_override v msg store g) = caURI g"
  "created (env_override v msg store g) = created g"
  "slept (env_override v msg store g) = slept g"
  "rfClient (env_override v msg store g) = rfClient g"
  by (simp_all add: env_override_def)

lemma env_override_logged:
  "\<exists>infos. logged (env_override v msg store g) = logged g @ infos \<and>
      list_all (\<lambda>e. fst e = Info \<and> Enabled (atomicLevel g) Info) infos"
  by (simp add: env_override_def logged_logger)

lemma createRFClient_state:
  "atomicLevel (snd (createRFClient E C T g)) = atomicLevel g \<and>
   caURI (snd (createRFClient E C T g)) = caURI g \<and>
   created (snd (createRFClient E C T g)) = created g + 1 \<and>
   slept (snd (createRFClient E C T g)) = slept g"
  by (cases "caURI g = ''''") (simp_all add: createRFClient_def Let_def split: sum.splits)

lemma createRFClient_logged:
  "\<exists>infos. logged (snd (createRFClient E C T g)) = logged g @ infos \<and>
      list_all (\<lambda>e. fst e = Info \<and> Enabled (atomicLevel g) Info) infos"
proof -
  let ?g1 = "env_override (E ''HMCOLLECTOR_CA_PKI_URL'') ''Using CA PKI URL: ''
                (\<lambda>v p. p\<lparr>VaultCAUrl := v\<rparr>) g"
  let ?g2 = "env_override (E ''HMCOLLECTOR_VAULT_PKI_URL'') ''Using VAULT PKI URL: ''
                (\<lambda>v p. p\<lparr>VaultPKIUrl := v\<rparr>) ?g1"
  let ?g3 = "env_override (E ''HMCOLLECTOR_VAULT_JWT_FILE'') ''Using Vault JWT file: ''
                (\<lambda>v p. p\<lparr>VaultJWTFile := v\<rparr>) ?g2"
  let ?g4 = "env_override (E ''HMCOLLECTOR_K8S_AUTH_URL'') ''Using K8S AUTH URL: ''
                (\<lambda>v p. p\<lparr>K8SAuthUrl := v\<rparr>) ?g3"
  let ?P = "list_all (\<lambda>e. fst e = Info \<and> Enabled (atomicLevel g) Info)"
  obtain i1 where i1: "logged ?g1 = logged g @ i1" "?P i1"
    using env_override_logged [of "E ''HMCOLLECTOR_CA_PKI_URL''" "''Using CA PKI URL: ''"
        "\<lambda>v p. p\<lparr>VaultCAUrl := v\<rparr>" g]
    by blast
  obtain i2 where i2: "logged ?g2 = logged ?g1 @ i2" "?P i2"
    using env_override_logged [of "E ''HMCOLLECTOR_VAULT_PKI_URL''" "''Using VAULT PKI URL: ''"
        "\<lambda>v p. p\<lparr>VaultPKIUrl := v\<rparr>" ?g1]
    by auto
  obtain i3 where i3: "logged ?g3 = logged ?g2 @ i3" "?P i3"
    using env_override_logged [of "E ''HMCOLLECTOR_VAULT_JWT_FILE''" "''Using Vault JWT file: ''"
        "\<lambda>v p. p\<lparr>VaultJWTFile := v\<rparr>" ?g2]
    by auto
  obtain i4 where i4: "logged ?g4 = logged ?g3 @ i4" "?P i4"
    using env_override_logged [of "E ''HMCOLLECTOR_K8S_AUTH_URL''" "''Using K8S AUTH URL: ''"
        "\<lambda>v p. p\<lparr>K8SAuthUrl := v\<rparr>" ?g3]
    by auto
  have "\<exists>i5. logged (snd (createRFClient E C T g)) = logged ?g4 @ i5 \<and> ?P i5"
    by (cases "caURI g = ''''")
       (simp_all add: createRFClient_def Let_def logged_logger split: sum.splits)
  then obtain i5 where i5: "logged (snd (createRFClient E C T g)) = logged ?g4 @ i5" "?P i5"
    by blast
  have "logged (snd (createRFClient E C T g)) = logged g @ (i1 @ i2 @ i3 @ i4 @ i5)"
    by (simp add: i1 i2 i3 i4 i5)
  moreover have "?P (i1 @ i2 @ i3 @ i4 @ i5)"
    using i1 i2 i3 i4 i5 by simp
  ultimately show ?thesis
    by blast
qed

lemma createRFClient_Inl:
  "C (created g) (caURI g) T = Inl err \<Longrightarrow>
   fst (createRFClient E C T g) = Some (''ERROR: Can't create Redfish HTTP client: '' @ err) \<and>
   rfClient (snd (createRFClient E C T g)) = rfClient g"
  by (cases "caURI g = ''''") (simp_all add: createRFClient_def Let_def)

lemma createRFClient_Inr:
  "C (created g) (caURI g) T = Inr rfc \<Longrightarrow>
   fst (createRFClient E C T g) = None \<and>
   rfClient (snd (createRFClient E C T g)) = Some rfc"
  by (cases "caURI g = ''''") (simp_all add: createRFClient_def Let_def)

lemma infos_filter:
  "list_all (\<lambda>e. fst e = Info \<and> Enabled a Info) infos \<Longrightarrow>
   filter (\<lambda>e. fst e \<noteq> Info) infos = [] \<and>
   list_all (\<lambda>e. Enabled a (fst e) \<and> level_int (fst e) \<le> 2) infos"
  by (induction infos) auto

lemma main_retry_all_fail:
  "ix + n = 11 \<Longrightarrow> \<forall>k<n. isl (C (created g + k) (caURI g) T) \<Longrightarrow>
   \<exists>g' new. main_retry E C T ix g = (False, g') \<and> atomicLevel g' = atomicLevel g \<and>
        caURI g' = caURI g \<and> created g' = created g + n \<and> slept g' = slept g + 2 * n \<and>
        rfClient g' = rfClient g \<and> logged g' = logged g @ new \<and>
        list_all (\<lambda>e. Enabled (atomicLevel g) (fst e) \<and> level_int (fst e) \<le> 2) new \<and>
        filter (\<lambda>e. fst e \<noteq> Info) new =
          filter (\<lambda>e. Enabled (atomicLevel g) (fst e))
            (map (\<lambda>k. (Error, ''TLS-verified client pair creation failure, '',
                        [zap_Int ''attempt'' (int (ix + k)),
                         zap_Error (Some (''ERROR: Can't create Redfish HTTP client: '' @
                            projl (C (created g + k) (caURI g) T)))]))
               [0..<n])"
proof (induction n arbitrary: ix g)
  case 0
  then show ?case
    by (simp add: main_retry.simps)
next
  case (Suc n)
  define entry :: "nat \<Rightarrow> nat \<Rightarrow> nat \<Rightarrow> level \<times> string \<times> 'b zap_field list"
    where "entry = (\<lambda>i c k. (Error, ''TLS-verified client pair creation failure, '',
                        [zap_Int ''attempt'' (int (i + k)),
                         zap_Error (Some (''ERROR: Can't create Redfish HTTP client: '' @
                            projl (C (c + k) (caURI g) T)))]))"
  from Suc.prems have ix: "ix \<le> 10"
    by simp
  from Suc.prems obtain err where err: "C (created g) (caURI g) T = Inl err"
    by (auto simp: isl_def dest: spec [of _ 0])
  define g1 where "g1 = snd (createRFClient E C T g)"
  define msg where "msg = ''ERROR: Can't create Redfish HTTP client: '' @ err"
  define g2 where "g2 = (logger Error ''TLS-verified client pair creation failure, ''
      [zap_Int ''attempt'' (int ix), zap_Error (Some msg)] g1)\<lparr>slept := slept g1 + 2\<rparr>"
  have c: "createRFClient E C T g = (Some msg, g1)"
    using createRFClient_Inl [where C = C and g = g and T = T and E = E, OF err]
    by (simp add: g1_def msg_def prod_eq_iff)
  have step: "main_retry E C T ix g = main_retry E C T (ix + 1) g2"
    using ix c by (subst main_retry.simps) (simp add: g2_def Let_def)
  obtain infos where infos: "logged g1 = logged g @ infos"
    "list_all (\<lambda>e. fst e = Info \<and> Enabled (atomicLevel g) Info) infos"
    using createRFClient_logged [of E C T g] by (auto simp: g1_def)
  have g1: "atomicLevel g1 = atomicLevel g" "caURI g1 = caURI g" "created g1 = created g + 1"
    "slept g1 = slept g" "rfClient g1 = rfClient g"
    using createRFClient_state [of E C T g]
      createRFClient_Inl [where C = C and g = g and T = T and E = E, OF err]
    by (simp_all add: g1_def)
  have first: "entry ix (created g) 0 =
      (Error, ''TLS-verified client pair creation failure, '',
       [zap_Int ''attempt'' (int ix), zap_Error (Some msg)])"
    by (simp add: entry_def err msg_def)
  have level: "fst (entry ix (created g) 0) = Error"
    by (simp add: entry_def)
  have g2: "atomicLevel g2 = atomicLevel g" "caURI g2 = caURI g" "created g2 = created g + 1"
    "slept g2 = slept g + 2" "rfClient g2 = rfClient g"
    "logged g2 = logged g @ infos @
       (if Enabled (atomicLevel g) Error then [entry ix (created g) 0] else [])"
    using g1 infos(1) by (simp_all add: g2_def logged_logger first)
  have en: "Enabled (atomicLevel g) Error \<longleftrightarrow> Enabled (atomicLevel g) (fst (entry ix (created g) 0))"
    by (simp add: level)
  have fails: "\<forall>k<n. isl (C (created g2 + k) (caURI g2) T)"
  proof (intro allI impI)
    fix k assume "k < n"
    then have "Suc k < Suc n" by simp
    with Suc.prems(2) have "isl (C (created g + Suc k) (caURI g) T)"
      by blast
    then show "isl (C (created g2 + k) (caURI g2) T)"
      by (simp add: g2)
  qed
  from Suc.prems have "(ix + 1) + n = 11"
    by simp
  from Suc.IH [OF this fails] obtain g' new where g':
    "main_retry E C T (ix + 1) g2 = (False, g')" "atomicLevel g' = atomicLevel g2"
    "caURI g' = caURI g2" "created g' = created g2 + n" "slept g' = slept g2 + 2 * n"
    "rfClient g' = rfClient g2" "logged g' = logged g2 @ new"
    "list_all (\<lambda>e. Enabled (atomicLevel g2) (fst e) \<and> level_int (fst e) \<le> 2) new"
    "filter (\<lambda>e. fst e \<noteq> Info) new =
       filter (\<lambda>e. Enabled (atomicLevel g2) (fst e))
         (map (\<lambda>k. (Error, ''TLS-verified client pair creation failure, '',
                        [zap_Int ''attempt'' (int (ix + 1 + k)),
                         zap_Error (Some (''ERROR: Can't create Redfish HTTP client: '' @
                            projl (C (created g2 + k) (caURI g2) T)))]))
            [0..<n])"
    by blast
  let ?new = "infos @ (if Enabled (atomicLevel g) Error then [entry ix (created g) 0] else [])
      @ new"
  have shift: "map (\<lambda>k. (Error, ''TLS-verified client pair creation failure, '',
                        [zap_Int ''attempt'' (int (ix + 1 + k)),
                         zap_Error (Some (''ERROR: Can't create Redfish HTTP client: '' @
                            projl (C (created g2 + k) (caURI g2) T)))])) [0..<n] =
      map (\<lambda>k. entry ix (created g) (Suc k)) [0..<n]"
    by (simp add: entry_def g2)
  have all: "map (entry ix (created g)) [0..<Suc n] =
      entry ix (created g) 0 # map (\<lambda>k. entry ix (created g) (Suc k)) [0..<n]"
    by (rule map_upt_Suc)
  have "main_retry E C T ix g = (False, g')"
    using step g'(1) by simp
  moreover have "logged g' = logged g @ ?new"
    using g'(7) g2(6) by simp
  moreover have "list_all (\<lambda>e. Enabled (atomicLevel g) (fst e) \<and> level_int (fst e) \<le> 2) ?new"
    using infos_filter [OF infos(2)] g'(8) g2(1) by (simp add: level)
  moreover have "filter (\<lambda>e. fst e \<noteq> Info) ?new =
      filter (\<lambda>e. Enabled (atomicLevel g) (fst e)) (map (entry ix (created g)) [0..<Suc n])"
    using infos_filter [OF infos(2)] g'(9) g2(1)
    unfolding all shift by (simp add: level)
  moreover have "atomicLevel g' = atomicLevel g" "caURI g' = caURI g"
    "created g' = created g + Suc n" "slept g' = slept g + 2 * Suc n" "rfClient g' = rfClient g"
    using g' g2 by simp_all
  ultimately show ?case
    unfolding entry_def by blast
qed

lemma main_clients_panics:
  assumes "\<forall>k<10. isl (C (created g + k) (caURI g) T)"
    and "isl (C (created g + 10) '''' T)"
  shows "main_clients E C T R g = Inl (PanicMessage ''Can't create Redfish HTTP client!!!'')"
proof -
  from main_retry_all_fail [of 1 10 C g T E] assms(1) obtain g' where
    g': "main_retry E C T 1 g = (False, g')" "caURI g' = caURI g"
    "created g' = created g + 10"
    by auto
  define g2 where "g2 = (logger Error
      ''   Making insecure client; Please check CA bundle URI for correctness.'' []
      (logger Error ''Can't create secure HTTP client pair for Redfish, exhausted retries.''
         [] g'))\<lparr>caURI := ''''\<rparr>"
  from assms(2) g' obtain err where "C (created g2) (caURI g2) T = Inl err"
    by (auto simp: g2_def isl_def)
  from createRFClient_Inl [where C = C and g = g2 and T = T and E = E, OF this]
  obtain msg g3 where
    "createRFClient E C T g2 = (Some msg, g3)"
    by (cases "createRFClient E C T g2") auto
  with g' show ?thesis
    by (simp add: main_clients_def Let_def g2_def)
qed

lemma main_clients_failover:
  assumes "\<forall>k<10. isl (C (created g + k) (caURI g) T)"
    and "C (created g + 10) '''' T = Inr rfc"
  shows "\<exists>g' new. main_clients E C T R g = Inr g' \<and> rfClient g' = Some rfc \<and> caURI g' = '''' \<and>
     atomicLevel g' = atomicLevel g \<and> created g' = created g + 11 \<and> slept g' = slept g + 20 \<and>
     logged g' = logged g @ new \<and>
     list_all (\<lambda>e. Enabled (atomicLevel g) (fst e) \<and> level_int (fst e) \<le> 2) new \<and>
     filter (\<lambda>e. fst e \<noteq> Info) new =
       filter (\<lambda>e. Enabled (atomicLevel g) (fst e))
         (map (\<lambda>k. (Error, ''TLS-verified client pair creation failure, '',
                     [zap_Int ''attempt'' (int (1 + k)),
                      zap_Error (Some (''ERROR: Can't create Redfish HTTP client: '' @
                         projl (C (created g + k) (caURI g) T)))]))
            [0..<10] @
          [(Error, ''Can't create secure HTTP client pair for Redfish, exhausted retries.'', []),
           (Error, ''   Making insecure client; Please check CA bundle URI for correctness.'', []),
           (Warn, ''No CA bundle URI specified, not watching for CA changes.'', [])])"
proof -
  define attempts :: "(level \<times> string \<times> 'b zap_field list) list" where
    "attempts = map (\<lambda>k. (Error, ''TLS-verified client pair creation failure, '',
                     [zap_Int ''attempt'' (int (1 + k)),
                      zap_Error (Some (''ERROR: Can't create Redfish HTTP client: '' @
                         projl (C (created g + k) (caURI g) T)))]))
            [0..<10]"
  define e1 :: "level \<times> string \<times> 'b zap_field list" where
    "e1 = (Error, ''Can't create secure HTTP client pair for Redfish, exhausted retries.'', [])"
  define e2 :: "level \<times> string \<times> 'b zap_field list" where
    "e2 = (Error, ''   Making insecure client; Please check CA bundle URI for correctness.'', [])"
  define w :: "level \<times> string \<times> 'b zap_field list" where
    "w = (Warn, ''No CA bundle URI specified, not watching for CA changes.'', [])"
  have lv: "fst e1 = Error" "fst e2 = Error" "fst w = Warn"
    by (simp_all add: e1_def e2_def w_def)
  from main_retry_all_fail [of 1 10 C g T E] assms(1) obtain g1 new1 where
    g1: "main_retry E C T 1 g = (False, g1)" "atomicLevel g1 = atomicLevel g"
    "caURI g1 = caURI g" "created g1 = created g + 10" "slept g1 = slept g + 20"
    "logged g1 = logged g @ new1"
    "list_all (\<lambda>e. Enabled (atomicLevel g) (fst e) \<and> level_int (fst e) \<le> 2) new1"
    "filter (\<lambda>e. fst e \<noteq> Info) new1 = filter (\<lambda>e. Enabled (atomicLevel g) (fst e)) attempts"
    unfolding attempts_def by auto
  define g2 where "g2 = (logger Error
      ''   Making insecure client; Please check CA bundle URI for correctness.'' []
      (logger Error ''Can't create secure HTTP client pair for Redfish, exhausted retries.''
         [] g1))\<lparr>caURI := ''''\<rparr>"
  define g3 where "g3 = snd (createRFClient E C T g2)"
  have g2: "caURI g2 = ''''" "created g2 = created g + 10" "slept g2 = slept g + 20"
    "atomicLevel g2 = atomicLevel g"
    "logged g2 = logged g @ new1 @ (if Enabled (atomicLevel g) Error then [e1, e2] else [])"
    using g1 by (simp_all add: g2_def logged_logger e1_def e2_def)
  with assms(2) have "C (created g2) (caURI g2) T = Inr rfc"
    by simp
  from createRFClient_Inr [where C = C and g = g2 and T = T and E = E, OF this] have
    c: "createRFClient E C T g2 = (None, g3)" and r: "rfClient g3 = Some rfc"
    by (simp_all add: g3_def prod_eq_iff)
  obtain infos where infos: "logged g3 = logged g2 @ infos"
    "list_all (\<lambda>e. fst e = Info \<and> Enabled (atomicLevel g) Info) infos"
    using createRFClient_logged [of E C T g2] g2(4) by (auto simp: g3_def)
  have g3: "caURI g3 = ''''" "created g3 = created g + 11" "slept g3 = slept g + 20"
    "atomicLevel g3 = atomicLevel g"
    using createRFClient_state [of E C T g2] g2 by (simp_all add: g3_def)
  define g4 where
    "g4 = logger Warn ''No CA bundle URI specified, not watching for CA changes.'' [] g3"
  let ?new = "new1 @ (if Enabled (atomicLevel g) Error then [e1, e2] else []) @ infos @
      (if Enabled (atomicLevel g) Warn then [w] else [])"
  have m: "main_clients E C T R g = Inr g4"
    using g1(1) c g3(1) by (simp add: main_clients_def Let_def g2_def g4_def)
  have g4: "rfClient g4 = Some rfc" "caURI g4 = ''''" "atomicLevel g4 = atomicLevel g"
    "created g4 = created g + 11" "slept g4 = slept g + 20"
    using r g3 by (simp_all add: g4_def)
  have l: "logged g4 = logged g @ ?new"
    using g3(4) infos(1) g2(5) by (simp add: g4_def logged_logger w_def)
  have a: "list_all (\<lambda>e. Enabled (atomicLevel g) (fst e) \<and> level_int (fst e) \<le> 2) ?new"
    using g1(7) infos_filter [OF infos(2)] by (simp add: lv)
  have f: "filter (\<lambda>e. fst e \<noteq> Info) ?new =
      filter (\<lambda>e. Enabled (atomicLevel g) (fst e)) (attempts @ [e1, e2, w])"
    using g1(8) infos_filter [OF infos(2)] by (simp add: lv)
  from m g4 l a f show ?thesis
    unfolding attempts_def e1_def e2_def w_def by blast
qed

lemma nothing_admitted:
  "list_all (\<lambda>e. Enabled Fatal (fst e) \<and> level_int (fst e) \<le> 2) new \<Longrightarrow> new = []"
  by (cases new) (auto simp: Enabled_def)

lemma upt_10: "[0..<10] = [0, 1, 2, 3, 4, 5, 6, 7, 8, 9]"
  by code_simp

text \<open>
  Claim C8, as the code has it. When the first ten creations of the client pair fail, each
  followed by a sleep of two seconds, and the pair can be created without a CA bundle, the
  process does not abort: \<open>main\<close> clears the CA bundle URI, creates the pair once more and
  goes on with this pair. Besides entries at level \<open>Info\<close>, it passes to the logger exactly
  ten errors for the failed attempts, numbered 1 to 10, then the two errors of the
  fail-over and the warning that it does not watch for CA changes; the log receives
  those that the level set from \<open>LOG_LEVEL\<close> admits, and nothing else above \<open>Info\<close>. The case
  that no pair can be created at all is apart: there \<open>main\<close> panics.
\<close>

theorem startup_failover:
  assumes "\<forall>k<10. isl (CreateHTTPClientPair (created g + k) (caURI g) httpTimeout)"
  shows "(\<forall>rfc. CreateHTTPClientPair (created g + 10) '''' httpTimeout = Inr rfc \<longrightarrow>
      (\<exists>g' new.
         main_clients Getenv CreateHTTPClientPair httpTimeout CAUpdateRegister g = Inr g' \<and>
         rfClient g' = Some rfc \<and> caURI g' = '''' \<and> atomicLevel g' = atomicLevel g \<and>
         created g' = created g + 11 \<and> slept g' = slept g + 20 \<and>
         logged g' = logged g @ new \<and>
         list_all (\<lambda>e. Enabled (atomicLevel g) (fst e) \<and> level_int (fst e) \<le> 2) new \<and>
         filter (\<lambda>e. fst e \<noteq> Info) new =
           filter (\<lambda>e. Enabled (atomicLevel g) (fst e))
             (map (\<lambda>k. (Error, ''TLS-verified client pair creation failure, '',
                         [zap_Int ''attempt'' (int (1 + k)),
                          zap_Error (Some (''ERROR: Can't create Redfish HTTP client: '' @
                             projl (CreateHTTPClientPair (created g + k) (caURI g) httpTimeout)))]))
                [0..<10] @
              [(Error, ''Can't create secure HTTP client pair for Redfish, exhausted retries.'',
                []),
               (Error, ''   Making insecure client; Please check CA bundle URI for correctness.'',
                []),
               (Warn, ''No CA bundle URI specified, not watching for CA changes.'', [])]))) \<and>
     (isl (CreateHTTPClientPair (created g + 10) '''' httpTimeout) \<longrightarrow>
        main_clients Getenv CreateHTTPClientPair httpTimeout CAUpdateRegister g =
          Inl (PanicMessage ''Can't create Redfish HTTP client!!!''))"
  using main_clients_failover [where C = CreateHTTPClientPair and g = g and T = httpTimeout
      and E = Getenv and R = CAUpdateRegister, OF assms]
    main_clients_panics [where C = CreateHTTPClientPair and g = g and T = httpTimeout
      and E = Getenv and R = CAUpdateRegister, OF assms]
  by blast

text \<open>
  The theorem at the default log level, with a library that builds a pair only without a
  CA bundle, and with one that never builds a pair.
\<close>

theorem startup_failover_witness:
  "(\<exists>g' new. main_clients (\<lambda>name. '''') pair_without_CA 10 (\<lambda>uri. None) clients0 = Inr g' \<and>
         rfClient g' = Some ''insecure pair'' \<and> caURI g' = '''' \<and> atomicLevel g' = Info \<and>
         created g' = 11 \<and> slept g' = 20 \<and> logged g' = new \<and>
         filter (\<lambda>e. fst e \<noteq> Info) new =
           map (\<lambda>i. (Error, ''TLS-verified client pair creation failure, '',
                       [zap_Int ''attempt'' i,
                        zap_Error (Some
                          ''ERROR: Can't create Redfish HTTP client: CA bundle not available'')]))
             [1, 2, 3, 4, 5, 6, 7, 8, 9, 10] @
           [(Error, ''Can't create secure HTTP client pair for Redfish, exhausted retries.'', []),
            (Error, ''   Making insecure client; Please check CA bundle URI for correctness.'',
             []),
            (Warn, ''No CA bundle URI specified, not watching for CA changes.'', [])]) \<and>
   main_clients (\<lambda>name. '''') pair_never 10 (\<lambda>uri. None) clients0 =
          Inl (PanicMessage ''Can't create Redfish HTTP client!!!'')"
proof -
  have a: "\<forall>k<10. isl (pair_without_CA (created clients0 + k) (caURI clients0) 10)"
    by (simp add: pair_without_CA_def clients0_def)
  have b: "\<forall>k<10. isl (pair_never (created clients0 + k) (caURI clients0) 10)"
    by (simp add: pair_never_def)
  have c: "pair_without_CA (created clients0 + 10) '''' 10 = Inr ''insecure pair''"
    by (simp add: pair_without_CA_def)
  have d: "isl (pair_never (created clients0 + 10) '''' 10)"
    by (simp add: pair_never_def)
  have e: "created clients0 = 0" "slept clients0 = 0" "logged clients0 = []"
    "atomicLevel clients0 = Info" "caURI clients0 = ''vault://pki_common/ca_chain''"
    by (simp_all add: clients0_def)
  from startup_failover [where CreateHTTPClientPair = pair_without_CA and g = clients0
      and httpTimeout = 10 and Getenv = "\<lambda>name. ''''" and CAUpdateRegister = "\<lambda>uri. None", OF a]
    c
  obtain g' new where f:
    "main_clients (\<lambda>name. '''') pair_without_CA 10 (\<lambda>uri. None) clients0 = Inr g'"
    "rfClient g' = Some ''insecure pair''" "caURI g' = ''''"
    "atomicLevel g' = atomicLevel clients0" "created g' = created clients0 + 11"
    "slept g' = slept clients0 + 20" "logged g' = logged clients0 @ new"
    and n: "filter (\<lambda>e. fst e \<noteq> Info) new =
           filter (\<lambda>e. Enabled (atomicLevel clients0) (fst e))
             (map (\<lambda>k. (Error, ''TLS-verified client pair creation failure, '',
                         [zap_Int ''attempt'' (int (1 + k)),
                          zap_Error (Some (''ERROR: Can't create Redfish HTTP client: '' @
                             projl (pair_without_CA (created clients0 + k) (caURI clients0) 10)))]))
                [0..<10] @
              [(Error, ''Can't create secure HTTP client pair for Redfish, exhausted retries.'',
                []),
               (Error, ''   Making insecure client; Please check CA bundle URI for correctness.'',
                []),
               (Warn, ''No CA bundle URI specified, not watching for CA changes.'', [])])"
    by blast
  from n have "filter (\<lambda>e. fst e \<noteq> Info) new =
           map (\<lambda>i. (Error, ''TLS-verified client pair creation failure, '',
                       [zap_Int ''attempt'' i,
                        zap_Error (Some
                          ''ERROR: Can't create Redfish HTTP client: CA bundle not available'')]))
             [1, 2, 3, 4, 5, 6, 7, 8, 9, 10] @
           [(Error, ''Can't create secure HTTP client pair for Redfish, exhausted retries.'', []),
            (Error, ''   Making insecure client; Please check CA bundle URI for correctness.'',
             []),
            (Warn, ''No CA bundle URI specified, not watching for CA changes.'', [])]"
    by (simp add: e upt_10 pair_without_CA_def Enabled_def)
  with f e
  have "\<exists>g' new. main_clients (\<lambda>name. '''') pair_without_CA 10 (\<lambda>uri. None) clients0 = Inr g' \<and>
         rfClient g' = Some ''insecure pair'' \<and> caURI g' = '''' \<and> atomicLevel g' = Info \<and>
         created g' = 11 \<and> slept g' = 20 \<and> logged g' = new \<and>
         filter (\<lambda>e. fst e \<noteq> Info) new =
           map (\<lambda>i. (Error, ''TLS-verified client pair creation failure, '',
                       [zap_Int ''attempt'' i,
                        zap_Error (Some
                          ''ERROR: Can't create Redfish HTTP client: CA bundle not available'')]))
             [1, 2, 3, 4, 5, 6, 7, 8, 9, 10] @
           [(Error, ''Can't create secure HTTP client pair for Redfish, exhausted retries.'', []),
            (Error, ''   Making insecure client; Please check CA bundle URI for correctness.'',
             []),
            (Warn, ''No CA bundle URI specified, not watching for CA changes.'', [])]"
    by (intro exI [of _ g'] exI [of _ new]) simp
  moreover from startup_failover [where CreateHTTPClientPair = pair_never and g = clients0
      and httpTimeout = 10 and Getenv = "\<lambda>name. ''''" and CAUpdateRegister = "\<lambda>uri. None", OF b]
    d
  have "main_clients (\<lambda>name. '''') pair_never 10 (\<lambda>uri. None) clients0 =
          Inl (PanicMessage ''Can't create Redfish HTTP client!!!'')"
    by blast
  ultimately show ?thesis
    by blast
qed

text \<open>
  Claim C8 as stated has the process log a warning. With \<open>LOG_LEVEL\<close> set to \<open>FATAL\<close> the ten
  creations fail, the pair without CA bundle is built and the process goes on, and the log
  stays empty.
\<close>

theorem startup_silent_counterexample:
  "atomicLevel (setupLogging (env_LOG_LEVEL ''FATAL'') ToUpper_ASCII clients0) = Fatal \<and>
   list_all (\<lambda>k. isl (pair_without_CA k ''vault://pki_common/ca_chain'' 10)) [0..<10] \<and>
   (case main_clients (env_LOG_LEVEL ''FATAL'') pair_without_CA 10 (\<lambda>uri. None)
           (setupLogging (env_LOG_LEVEL ''FATAL'') ToUpper_ASCII clients0) of
      Inl p \<Rightarrow> None
    | Inr g' \<Rightarrow> Some (rfClient g', logged g')) = Some (Some ''insecure pair'', [])"
proof -
  let ?g = "setupLogging (env_LOG_LEVEL ''FATAL'') ToUpper_ASCII clients0"
  have lvl: "atomicLevel ?g = Fatal"
    by (simp add: setupLogging_def env_LOG_LEVEL_def ToUpper_ASCII_def Let_def)
  have e: "created ?g = 0" "logged ?g = []" "caURI ?g = ''vault://pki_common/ca_chain''"
    by (simp_all add: setupLogging_def clients0_def)
  have a: "\<forall>k<10. isl (pair_without_CA (created ?g + k) (caURI ?g) 10)"
    by (simp add: pair_without_CA_def e)
  have c: "pair_without_CA (created ?g + 10) '''' 10 = Inr ''insecure pair''"
    by (simp add: pair_without_CA_def)
  from main_clients_failover [where C = pair_without_CA and g = ?g and T = 10
      and E = "env_LOG_LEVEL ''FATAL''" and R = "\<lambda>uri. None", OF a c]
  obtain g' new where g':
    "main_clients (env_LOG_LEVEL ''FATAL'') pair_without_CA 10 (\<lambda>uri. None) ?g = Inr g'"
    "rfClient g' = Some ''insecure pair''" "logged g' = logged ?g @ new"
    "list_all (\<lambda>e. Enabled (atomicLevel ?g) (fst e) \<and> level_int (fst e) \<le> 2) new"
    by blast
  from g'(4) have "new = []"
    unfolding lvl by (rule nothing_admitted)
  with g' e lvl show ?thesis
    by (simp add: list_all_iff pair_without_CA_def)
qed

subsection \<open>The flush at shutdown\<close>

text \<open>
  Claim C9, as the code has it. The function that \<open>main\<close> defers flushes the producer of
  every configured broker once, in order, with a timeout of 15000 milliseconds, and passes
  the count that \<open>Flush\<close> returned (the messages still not flushed) to the logger at level
  \<open>Info\<close> as \<open>abandonedMessages\<close>, for each broker: the log receives these entries when the
  level set from \<open>LOG_LEVEL\<close> is \<open>Debug\<close> or \<open>Info\<close>, and nothing otherwise.
\<close>

theorem shutdown_flushes_every_broker:
  "flushed (main_deferred Flush kafkaBrokers g) =
     flushed g @ map (\<lambda>thisBroker. (thisBroker, 15000)) kafkaBrokers \<and>
   atomicLevel (main_deferred Flush kafkaBrokers g) = atomicLevel g \<and>
   logged (main_deferred Flush kafkaBrokers g) =
     logged g @
     (if Enabled (atomicLevel g) Info
      then map (\<lambda>(i, thisBroker). (Info, ''Closed connection with Kafka broker.'',
                  [zap_Any ''broker'' thisBroker,
                   zap_Int ''abandonedMessages'' (Flush i thisBroker 15000)]))
             (enumerate (length (flushed g)) kafkaBrokers)
      else [])"
  by (induction kafkaBrokers arbitrary: g) (simp_all add: Let_def logger_def)

text \<open>
  Claim C9 as stated has the count reported for each broker. With \<open>LOG_LEVEL\<close> set to
  \<open>WARN\<close> both brokers are flushed, seven messages are left at the first, and the log stays
  empty.
\<close>

theorem shutdown_unreported_counterexample:
  "atomicLevel (setupLogging (env_LOG_LEVEL ''WARN'') ToUpper_ASCII producers0) = Warn \<and>
   flushed (main_deferred Flush_backlog [''kafka-telemetry:9092'', ''kafka-events:9092'']
              (setupLogging (env_LOG_LEVEL ''WARN'') ToUpper_ASCII producers0)) =
     [(''kafka-telemetry:9092'', 15000), (''kafka-events:9092'', 15000)] \<and>
   Flush_backlog 0 ''kafka-telemetry:9092'' 15000 = 7 \<and>
   logged (main_deferred Flush_backlog [''kafka-telemetry:9092'', ''kafka-events:9092'']
              (setupLogging (env_LOG_LEVEL ''WARN'') ToUpper_ASCII producers0)) = []"
  by (simp add: setupLogging_def env_LOG_LEVEL_def ToUpper_ASCII_def Let_def producers0_def
      logger_def Enabled_def Flush_backlog_def)

end
